theory Spec2Isabelle
  imports Complex_Main
begin

section \<open>Strings\<close>

text \<open>
  A JavaScript string is the list of its UTF-16 code units, each an integer (from 0 to
  65535). The texts that come from a provider and the strings inside the values of
  \<open>JSON.parse\<close> are such lists (\<open>ustring\<close>). The texts the helper writes itself (its messages,
  the patterns' literals, the property names) are given as string literals and turned into
  code units by \<open>str\<close>. The string methods below are the ones the processing helper calls.
\<close>

type_synonym ustring = "int list"

definition code :: "char \<Rightarrow> int" where
  \<comment> \<open>The code unit of a character written in a literal.\<close>
  "code c = of_char c"

definition str :: "string \<Rightarrow> ustring" where
  "str s = map code s"

definition in_range :: "char \<Rightarrow> char \<Rightarrow> int \<Rightarrow> bool" where
  "in_range lo hi c = (code lo \<le> c \<and> c \<le> code hi)"

definition is_space :: "int \<Rightarrow> bool" where
  \<comment> \<open>WhiteSpace and LineTerminator of ECMAScript: what \<open>\s\<close> matches and \<open>trim\<close>
      strips. Tab, the line terminators, space, no-break space, the space separators of
      Unicode and the byte order mark.\<close>
  "is_space c =
     (c \<in> {9, 10, 11, 12, 13, 32, 160, 0x1680, 0x2028, 0x2029, 0x202F, 0x205F, 0x3000, 0xFEFF}
      \<or> (0x2000 \<le> c \<and> c \<le> 0x200A))"

definition upper_char :: "int \<Rightarrow> int" where
  \<comment> \<open>\<open>toUpperCase\<close> on one code unit. The helper upper-cases only option keys that passed
      \<open>/^[a-d]$/\<close> after lower-casing and capture groups of \<open>[A-Da-d1-4]\<close>, so only the
      ASCII letters are mapped.\<close>
  "upper_char c = (if in_range CHR ''a'' CHR ''z'' c then c - 32 else c)"

definition lower_char :: "int \<Rightarrow> ustring" where
  \<comment> \<open>\<open>toLowerCase\<close> on one code unit. The helper lower-cases an option key only to test
      the result against \<open>/^[a-d]$/\<close>. The code units below 256 are mapped as Unicode maps
      them (A-Z and the Latin-1 capitals). Above 255 only U+0130 and U+212A (the Kelvin sign)
      lower-case to ASCII letters, \<open>i\<close> with a combining dot and \<open>k\<close>; every other code
      unit lower-cases to code units above 127 and is left as it is here, which that test does
      not tell apart.\<close>
  "lower_char c =
     (if in_range CHR ''A'' CHR ''Z'' c \<or> (192 \<le> c \<and> c \<le> 222 \<and> c \<noteq> 215) then [c + 32]
      else if c = 0x0130 then [code CHR ''i'', 0x0307]
      else if c = 0x212A then [code CHR ''k'']
      else [c])"

definition toUpperCase :: "ustring \<Rightarrow> ustring" where
  "toUpperCase s = map upper_char s"

definition toLowerCase :: "ustring \<Rightarrow> ustring" where
  "toLowerCase s = concat (map lower_char s)"

definition trim :: "ustring \<Rightarrow> ustring" where
  "trim s = rev (dropWhile is_space (rev (dropWhile is_space s)))"

fun starts_with :: "'a list \<Rightarrow> 'a list \<Rightarrow> bool" where
  "starts_with s [] = True"
| "starts_with [] (p # ps) = False"
| "starts_with (x # xs) (p # ps) = (x = p \<and> starts_with xs ps)"

fun str_includes :: "'a list \<Rightarrow> 'a list \<Rightarrow> bool" where
  "str_includes [] sub = (sub = [])"
| "str_includes (x # xs) sub = (starts_with (x # xs) sub \<or> str_includes xs sub)"

fun replace_first :: "'a list \<Rightarrow> 'a list \<Rightarrow> 'a list \<Rightarrow> 'a list" where
  \<comment> \<open>\<open>s.replace(pat, rep)\<close> with a string pattern: the first occurrence only.\<close>
  "replace_first [] pat rep = (if pat = [] then rep else [])"
| "replace_first (x # xs) pat rep =
     (if starts_with (x # xs) pat then rep @ drop (length pat) (x # xs)
      else x # replace_first xs pat rep)"

fun show_nat :: "nat \<Rightarrow> ustring" where
  \<comment> \<open>\<open>n.toString()\<close> for a non-negative integer.\<close>
  "show_nat n =
     (if n < 10 then [48 + int n] else show_nat (n div 10) @ [48 + int (n mod 10)])"

declare show_nat.simps [simp del]

section \<open>Regular expressions\<close>

text \<open>
  The subset of ECMAScript regular expressions that the helper's patterns use, with the
  backtracking order of the language: \<open>rmatch r st\<close> lists every way \<open>r\<close> can match at
  the state \<open>st\<close>, most preferred first, so the head of the list is what the engine's
  backtracking search finds. A state is the captures made so far, the offset reached in
  the subject and the rest of the subject. No pattern of the helper has a capture group under
  a quantifier or a back reference.
\<close>

type_synonym caps = "(nat \<times> ustring) list"
type_synonym mstate = "caps \<times> nat \<times> ustring"

datatype re =
    Eps
  | Cls "int \<Rightarrow> bool"
  | Seq re re
  | Alt re re
  | Star re
  | LazyStar re
  | Ahead re
  | NotAhead re
  | Grp nat re
  | Bol
  | Eol

function rmatch :: "re \<Rightarrow> mstate \<Rightarrow> mstate list" where
  "rmatch Eps st = [st]"
| "rmatch (Cls p) (c, n, s) =
     (case s of [] \<Rightarrow> [] | x # xs \<Rightarrow> if p x then [(c, Suc n, xs)] else [])"
| "rmatch (Seq a b) st = concat (map (rmatch b) (rmatch a st))"
| "rmatch (Alt a b) st = rmatch a st @ rmatch b st"
| "rmatch (Star a) (c, n, s) =
     concat (map (rmatch (Star a))
       (filter (\<lambda>st'. length (snd (snd st')) < length s) (rmatch a (c, n, s))))
     @ [(c, n, s)]"
| "rmatch (LazyStar a) (c, n, s) =
     (c, n, s) #
     concat (map (rmatch (LazyStar a))
       (filter (\<lambda>st'. length (snd (snd st')) < length s) (rmatch a (c, n, s))))"
| "rmatch (Ahead a) (c, n, s) =
     (case rmatch a (c, n, s) of [] \<Rightarrow> [] | (c', _) # _ \<Rightarrow> [(c', n, s)])"
| "rmatch (NotAhead a) st = (case rmatch a st of [] \<Rightarrow> [st] | _ # _ \<Rightarrow> [])"
| "rmatch (Grp k a) (c, n, s) =
     map (\<lambda>(c', n', s'). ((k, take (n' - n) s) # c', n', s')) (rmatch a (c, n, s))"
| "rmatch Bol (c, n, s) = (if n = 0 then [(c, n, s)] else [])"
| "rmatch Eol (c, n, s) = (case s of [] \<Rightarrow> [(c, n, s)] | _ # _ \<Rightarrow> [])"
  by pat_completeness auto
termination
  by (relation "inv_image (less_than <*lex*> less_than) (\<lambda>(r, c, n, s). (size r, length s))")
     auto

text \<open>
  A match, as \<open>exec\<close> returns it: where it starts, the matched text and the captures.
  \<open>re_search r n s\<close> tries the start offsets from \<open>n\<close> on, where \<open>s\<close> is the subject from
  offset \<open>n\<close>.
\<close>

record rmatched =
  m_index :: nat
  m_text :: ustring
  m_groups :: caps
  m_end :: nat
  m_rest :: ustring

fun re_search :: "re \<Rightarrow> nat \<Rightarrow> ustring \<Rightarrow> rmatched option" where
  "re_search r n [] =
     (case rmatch r ([], n, []) of
        [] \<Rightarrow> None
      | (c, n', s') # _ \<Rightarrow>
          Some \<lparr>m_index = n, m_text = [], m_groups = c, m_end = n', m_rest = s'\<rparr>)"
| "re_search r n (x # xs) =
     (case rmatch r ([], n, x # xs) of
        [] \<Rightarrow> re_search r (Suc n) xs
      | (c, n', s') # _ \<Rightarrow>
          Some \<lparr>m_index = n, m_text = take (n' - n) (x # xs), m_groups = c, m_end = n',
                m_rest = s'\<rparr>)"

definition re_exec :: "re \<Rightarrow> ustring \<Rightarrow> rmatched option" where
  \<comment> \<open>\<open>s.match(r)\<close> and \<open>r.exec(s)\<close> for a pattern without the \<open>g\<close> flag; \<open>None\<close> is
      \<open>null\<close>.\<close>
  "re_exec r s = re_search r 0 s"

definition re_test :: "re \<Rightarrow> ustring \<Rightarrow> bool" where
  "re_test r s = (re_exec r s \<noteq> None)"

definition group :: "rmatched \<Rightarrow> nat \<Rightarrow> ustring option" where
  \<comment> \<open>\<open>match[k]\<close>; \<open>None\<close> is a group that did not take part (\<open>undefined\<close>).\<close>
  "group m k = map_of (m_groups m) k"

definition chr :: "char \<Rightarrow> re" where
  \<comment> \<open>A literal character of a pattern.\<close>
  "chr x = Cls (\<lambda>c. c = code x)"

definition chr_i :: "char \<Rightarrow> re" where
  \<comment> \<open>A literal character under the \<open>i\<close> flag. The patterns' literals are ASCII, and
      without the \<open>u\<close> flag a code unit above 127 is never taken for an ASCII one.\<close>
  "chr_i x = Cls (\<lambda>c. upper_char c = upper_char (code x))"

fun lit :: "string \<Rightarrow> re" where
  "lit [] = Eps"
| "lit (x # xs) = Seq (chr x) (lit xs)"

fun lit_i :: "string \<Rightarrow> re" where
  "lit_i [] = Eps"
| "lit_i (x # xs) = Seq (chr_i x) (lit_i xs)"

definition Plus :: "re \<Rightarrow> re" where
  "Plus r = Seq r (Star r)"

definition Opt :: "re \<Rightarrow> re" where
  "Opt r = Alt r Eps"

fun seqs :: "re list \<Rightarrow> re" where
  "seqs [] = Eps"
| "seqs [r] = r"
| "seqs (r # rs) = Seq r (seqs rs)"

section \<open>Values\<close>

text \<open>
  The values \<open>JSON.parse\<close> produces, and \<open>undefined\<close>. An object is the list of its own
  properties in property order (array indices ascending, then the other keys in the order
  they were created). An array carries its elements and the named properties assigned to it.
  A number is an IEEE 754 double: a finite one is its exact value, and the negative zero and
  the infinities stand apart.
\<close>

datatype number = Finite rat | NegZero | PosInfinity | NegInfinity

datatype json =
    JUndefined
  | JNull
  | JBool bool
  | JNum number
  | JStr ustring
  | JArr "json list" "(ustring \<times> json) list"
  | JObj "(ustring \<times> json) list"

datatype exn = TypeError | SyntaxError | Error string

fun truthy :: "json \<Rightarrow> bool" where
  "truthy JUndefined = False"
| "truthy JNull = False"
| "truthy (JBool b) = b"
| "truthy (JNum n) = (case n of Finite r \<Rightarrow> r \<noteq> 0 | NegZero \<Rightarrow> False | _ \<Rightarrow> True)"
| "truthy (JStr s) = (s \<noteq> [])"
| "truthy (JArr xs ps) = True"
| "truthy (JObj kvs) = True"

definition lookup :: "(ustring \<times> json) list \<Rightarrow> ustring \<Rightarrow> json" where
  "lookup kvs k = (case map_of kvs k of None \<Rightarrow> JUndefined | Some v \<Rightarrow> v)"

fun get :: "json \<Rightarrow> ustring \<Rightarrow> exn + json" where
  \<comment> \<open>\<open>v.name\<close> for the property names the helper reads (\<open>answers\<close>, \<open>questions\<close>,
      \<open>question_text\<close>, \<open>options\<close>, \<open>question_number\<close>): none is inherited from a
      prototype, so the read is a lookup among the own properties.\<close>
  "get JUndefined k = Inl TypeError"
| "get JNull k = Inl TypeError"
| "get (JObj kvs) k = Inr (lookup kvs k)"
| "get (JArr xs ps) k = Inr (lookup ps k)"
| "get v k = Inr JUndefined"

fun get_index :: "json \<Rightarrow> nat \<Rightarrow> exn + json" where
  \<comment> \<open>\<open>v[i]\<close> for a non-negative integer \<open>i\<close>.\<close>
  "get_index JUndefined i = Inl TypeError"
| "get_index JNull i = Inl TypeError"
| "get_index (JArr xs ps) i = Inr (if i < length xs then xs ! i else JUndefined)"
| "get_index (JStr s) i = Inr (if i < length s then JStr [s ! i] else JUndefined)"
| "get_index (JObj kvs) i = Inr (lookup kvs (show_nat i))"
| "get_index v i = Inr JUndefined"

fun digits_value :: "ustring \<Rightarrow> int" where
  "digits_value [] = 0"
| "digits_value (c # cs) = (c - 48) * 10 ^ length cs + digits_value cs"

definition is_array_index :: "ustring \<Rightarrow> bool" where
  \<comment> \<open>A canonical numeric string below \<open>2^32 - 1\<close>.\<close>
  "is_array_index k =
     (k \<noteq> [] \<and> list_all (in_range CHR ''0'' CHR ''9'') k \<and> (k = str ''0'' \<or> hd k \<noteq> code CHR ''0'')
      \<and> digits_value k < 4294967295)"

fun insert_index :: "(ustring \<times> json) list \<Rightarrow> ustring \<Rightarrow> json \<Rightarrow> (ustring \<times> json) list" where
  "insert_index [] k v = [(k, v)]"
| "insert_index ((k', v') # kvs) k v =
     (if is_array_index k' \<and> digits_value k' < digits_value k
      then (k', v') # insert_index kvs k v
      else (k, v) # (k', v') # kvs)"

fun replace_value :: "(ustring \<times> json) list \<Rightarrow> ustring \<Rightarrow> json \<Rightarrow> (ustring \<times> json) list" where
  "replace_value [] k v = []"
| "replace_value ((k', v') # kvs) k v =
     (if k' = k then (k, v) # kvs else (k', v') # replace_value kvs k v)"

definition define_property :: "(ustring \<times> json) list \<Rightarrow> ustring \<Rightarrow> json \<Rightarrow> (ustring \<times> json) list" where
  \<comment> \<open>Creating or overwriting an own data property: an existing key keeps its place, a new
      array index goes among the indices, any other new key goes last.\<close>
  "define_property kvs k v =
     (if k \<in> fst ` set kvs then replace_value kvs k v
      else if is_array_index k then insert_index kvs k v
      else kvs @ [(k, v)])"

definition assign :: "(ustring \<times> json) list \<Rightarrow> ustring \<Rightarrow> json \<Rightarrow> (ustring \<times> json) list" where
  \<comment> \<open>\<open>o[k] = v\<close> on an ordinary object. The key \<open>__proto__\<close> reaches the setter inherited
      from \<open>Object.prototype\<close> and creates no own property.\<close>
  "assign kvs k v = (if k = str ''__proto__'' then kvs else define_property kvs k v)"

fun set_prop :: "json \<Rightarrow> ustring \<Rightarrow> json \<Rightarrow> exn + json" where
  \<comment> \<open>\<open>target.name = v\<close> in strict mode, for the names the helper assigns; the result is
      the target after the assignment.\<close>
  "set_prop (JObj kvs) k v = Inr (JObj (assign kvs k v))"
| "set_prop (JArr xs ps) k v = Inr (JArr xs (assign ps k v))"
| "set_prop t k v = Inl TypeError"

fun indexed :: "nat \<Rightarrow> 'a list \<Rightarrow> (ustring \<times> 'a) list" where
  "indexed i [] = []"
| "indexed i (x # xs) = (show_nat i, x) # indexed (Suc i) xs"

fun object_entries :: "json \<Rightarrow> exn + (ustring \<times> json) list" where
  \<comment> \<open>\<open>Object.entries(v)\<close>; \<open>Object.keys(v)\<close> is its first components.\<close>
  "object_entries JUndefined = Inl TypeError"
| "object_entries JNull = Inl TypeError"
| "object_entries (JObj kvs) = Inr kvs"
| "object_entries (JArr xs ps) = Inr (indexed 0 xs @ ps)"
| "object_entries (JStr s) = Inr (indexed 0 (map (\<lambda>c. JStr [c]) s))"
| "object_entries v = Inr []"

section \<open>Option keys\<close>

text \<open>
  The loop of \<open>validateAndFixMCQFormat\<close> that rebuilds a question's options under normalised
  keys (\<open>normalizedOptions\<close> starts empty and receives one assignment per entry).
\<close>

definition re_digit_key :: re where
  \<comment> \<open>\<open>/^[1-4]$/\<close>\<close>
  "re_digit_key = seqs [Bol, Cls (in_range CHR ''1'' CHR ''4''), Eol]"

definition re_letter_key :: re where
  \<comment> \<open>\<open>/^[a-d]$/\<close>\<close>
  "re_letter_key = seqs [Bol, Cls (in_range CHR ''a'' CHR ''d''), Eol]"

definition parseInt :: "ustring \<Rightarrow> nat" where
  \<comment> \<open>\<open>parseInt\<close> on a string of decimal digits (the helper calls it on a key that passed
      \<open>/^[1-4]$/\<close>).\<close>
  "parseInt s = nat (digits_value (takeWhile (in_range CHR ''0'' CHR ''9'') s))"

definition fromCharCode :: "nat \<Rightarrow> ustring" where
  "fromCharCode n = [int n mod 65536]"

definition normalize_key :: "ustring \<Rightarrow> ustring" where
  "normalize_key key =
     (if re_test re_digit_key key then fromCharCode (64 + parseInt key)
      else if re_test re_letter_key (toLowerCase key) then toUpperCase key
      else key)"

definition normalize_options :: "(ustring \<times> json) list \<Rightarrow> (ustring \<times> json) list" where
  "normalize_options entries = foldl (\<lambda>acc (k, v). assign acc (normalize_key k) v) [] entries"

subsection \<open>Global matching, replacing and splitting\<close>

fun exec_all :: "re \<Rightarrow> nat \<Rightarrow> ustring \<Rightarrow> rmatched list" where
  \<comment> \<open>The matches of \<open>while ((match = pattern.exec(text)) !== null)\<close> for a pattern with
      the \<open>g\<close> flag, from \<open>lastIndex = n\<close> on. Every pattern used this way consumes at
      least one character; an empty match would leave \<open>lastIndex\<close> where it is.\<close>
  "exec_all r n s =
     (case re_search r n s of
        None \<Rightarrow> []
      | Some m \<Rightarrow>
          if length (m_rest m) < length s then m # exec_all r (m_end m) (m_rest m) else [m])"

declare exec_all.simps [simp del]

definition match_all :: "re \<Rightarrow> ustring \<Rightarrow> ustring list option" where
  \<comment> \<open>\<open>s.match(r)\<close> for a pattern with the \<open>g\<close> flag whose matches are not empty: the
      matched texts, or \<open>null\<close> when there is none.\<close>
  "match_all r s = (case exec_all r 0 s of [] \<Rightarrow> None | ms \<Rightarrow> Some (map m_text ms))"

definition re_replace :: "re \<Rightarrow> ustring \<Rightarrow> ustring \<Rightarrow> ustring" where
  \<comment> \<open>\<open>s.replace(r, rep)\<close> without the \<open>g\<close> flag, for a replacement text without \<open>$\<close>.\<close>
  "re_replace r s rep =
     (case re_exec r s of None \<Rightarrow> s | Some m \<Rightarrow> take (m_index m) s @ rep @ m_rest m)"

fun re_replace_all_from :: "re \<Rightarrow> nat \<Rightarrow> ustring \<Rightarrow> ustring \<Rightarrow> ustring" where
  "re_replace_all_from r n s rep =
     (case re_search r n s of
        None \<Rightarrow> s
      | Some m \<Rightarrow>
          if length (m_rest m) < length s
          then take (m_index m - n) s @ rep @ re_replace_all_from r (m_end m) (m_rest m) rep
          else s)"

declare re_replace_all_from.simps [simp del]

definition re_replace_all :: "re \<Rightarrow> ustring \<Rightarrow> ustring \<Rightarrow> ustring" where
  \<comment> \<open>\<open>s.replace(r, rep)\<close> with the \<open>g\<close> flag, for a pattern whose matches are not empty.\<close>
  "re_replace_all r s rep = re_replace_all_from r 0 s rep"

fun split_from :: "re \<Rightarrow> ustring \<Rightarrow> nat \<Rightarrow> ustring \<Rightarrow> ustring list" where
  \<comment> \<open>The loop of \<open>split\<close>: \<open>piece\<close> is the text since the last separator, reversed. The
      separator is tried at each offset in turn; an empty match there is not a separator
      when the piece is empty.\<close>
  "split_from r piece n [] = [rev piece]"
| "split_from r piece n (x # xs) =
     (case rmatch r ([], n, x # xs) of
        [] \<Rightarrow> split_from r (x # piece) (Suc n) xs
      | (c, n', s') # _ \<Rightarrow>
          if length s' < length (x # xs) then rev piece # split_from r [] n' s'
          else if piece = [] then split_from r [x] (Suc n) xs
          else rev piece # split_from r [x] (Suc n) xs)"

definition re_split :: "re \<Rightarrow> ustring \<Rightarrow> ustring list" where
  \<comment> \<open>\<open>s.split(r)\<close> for a pattern without capture groups.\<close>
  "re_split r s =
     (if s = [] then (if rmatch r ([], 0, []) = [] then [[]] else []) else split_from r [] 0 s)"

fun split_char_from :: "char \<Rightarrow> ustring \<Rightarrow> ustring \<Rightarrow> ustring list" where
  "split_char_from sep piece [] = [rev piece]"
| "split_char_from sep piece (x # xs) =
     (if x = code sep then rev piece # split_char_from sep [] xs
      else split_char_from sep (x # piece) xs)"

definition split_char :: "char \<Rightarrow> ustring \<Rightarrow> ustring list" where
  \<comment> \<open>\<open>s.split(sep)\<close> for a separator of one character.\<close>
  "split_char sep s = split_char_from sep [] s"

section \<open>JSON.parse\<close>

text \<open>
  The JSON grammar of ECMA-404 as \<open>JSON.parse\<close> reads it; \<open>None\<close> is the \<open>SyntaxError\<close>.
  Properties are created in source order, a repeated key overwriting the earlier value. An
  escape \<open>\uXXXX\<close> gives the code unit it names. A number is the double nearest to its decimal
  value, ties to the even significand. The recursion on nested values is bounded by twice the
  length of the text, which each nested value stays below, as every two nested calls consume
  at least one character.
\<close>

definition json_ws :: "int \<Rightarrow> bool" where
  "json_ws c = (c \<in> {9, 10, 13, 32})"

definition skip_ws :: "ustring \<Rightarrow> ustring" where
  "skip_ws s = dropWhile json_ws s"

definition is_digit :: "int \<Rightarrow> bool" where
  "is_digit c = in_range CHR ''0'' CHR ''9'' c"

definition hex_value :: "int \<Rightarrow> int option" where
  "hex_value c =
     (if is_digit c then Some (c - 48)
      else if in_range CHR ''a'' CHR ''f'' c then Some (c - 87)
      else if in_range CHR ''A'' CHR ''F'' c then Some (c - 55)
      else None)"

definition unescape :: "int \<Rightarrow> int option" where
  "unescape e =
     (if e = code CHR 0x22 then Some 0x22
      else if e = code CHR 0x5C then Some 0x5C
      else if e = code CHR ''/'' then Some (code CHR ''/'')
      else if e = code CHR ''b'' then Some 0x08
      else if e = code CHR ''f'' then Some 0x0C
      else if e = code CHR ''n'' then Some 0x0A
      else if e = code CHR ''r'' then Some 0x0D
      else if e = code CHR ''t'' then Some 0x09
      else None)"

definition cons_result :: "int \<Rightarrow> (ustring \<times> ustring) option \<Rightarrow> (ustring \<times> ustring) option" where
  "cons_result c r = (case r of None \<Rightarrow> None | Some (t, rest) \<Rightarrow> Some (c # t, rest))"

fun parse_string_body :: "ustring \<Rightarrow> (ustring \<times> ustring) option" where
  \<comment> \<open>The characters of a string after its opening quote: the string and what follows the
      closing quote.\<close>
  "parse_string_body [] = None"
| "parse_string_body (c # cs) =
     (if c = code CHR 0x22 then Some ([], cs)
      else if c = code CHR 0x5C then
        (case cs of
           [] \<Rightarrow> None
         | e # r \<Rightarrow>
             if e = code CHR ''u'' then
               (case r of
                  h1 # h2 # h3 # h4 # r' \<Rightarrow>
                    (case (hex_value h1, hex_value h2, hex_value h3, hex_value h4) of
                       (Some a, Some b, Some c', Some d) \<Rightarrow>
                         cons_result (4096 * a + 256 * b + 16 * c' + d) (parse_string_body r')
                     | _ \<Rightarrow> None)
                | _ \<Rightarrow> None)
             else
               (case unescape e of
                  None \<Rightarrow> None
                | Some ch \<Rightarrow> cons_result ch (parse_string_body r)))
      else if c < 32 then None
      else cons_result c (parse_string_body cs))"

subsection \<open>Numbers\<close>

function bit_length :: "int \<Rightarrow> int" where
  \<comment> \<open>The number of binary digits of \<open>n\<close>.\<close>
  "bit_length n = (if n \<le> 0 then 0 else 1 + bit_length (n div 2))"
  by pat_completeness auto
termination
  by (relation "measure nat") auto

declare bit_length.simps [simp del]

definition pow2 :: "int \<Rightarrow> rat" where
  "pow2 e = (if 0 \<le> e then 2 ^ nat e else 1 / 2 ^ nat (- e))"

definition binade :: "rat \<Rightarrow> int" where
  \<comment> \<open>For \<open>q > 0\<close>, the exponent \<open>e\<close> with \<open>2^e \<le> q < 2^(e+1)\<close>: the quotient of a numerator
      of \<open>m\<close> binary digits by a denominator of \<open>n\<close> lies between \<open>2^(m-n-1)\<close> and
      \<open>2^(m-n+1)\<close>.\<close>
  "binade q =
     (let (a, b) = quotient_of q;
          e = bit_length a - bit_length b
      in if pow2 e \<le> q then e else e - 1)"

definition round_half_even :: "rat \<Rightarrow> int" where
  "round_half_even x =
     (let f = \<lfloor>x\<rfloor>; d = x - of_int f
      in if d < 1 / 2 then f else if 1 / 2 < d then f + 1 else if even f then f else f + 1)"

definition to_double :: "rat \<Rightarrow> number" where
  \<comment> \<open>The double nearest to \<open>q \<ge> 0\<close>. Its significand has 53 binary digits, so the doubles
      of the binade \<open>e\<close> are the multiples of \<open>2^(e-52)\<close>, and those below \<open>2^(-1022)\<close> the
      multiples of \<open>2^(-1074)\<close>; a value that rounds to \<open>2^1024\<close> or beyond is infinite.\<close>
  "to_double q =
     (if q = 0 then Finite 0
      else
        (let ulp = pow2 (max (binade q) (- 1022) - 52);
             v = of_int (round_half_even (q / ulp)) * ulp
         in if pow2 1024 \<le> v then PosInfinity else Finite v))"

definition negate :: "number \<Rightarrow> number" where
  "negate n =
     (case n of
        Finite r \<Rightarrow> if r = 0 then NegZero else Finite (- r)
      | NegZero \<Rightarrow> Finite 0
      | PosInfinity \<Rightarrow> NegInfinity
      | NegInfinity \<Rightarrow> PosInfinity)"

definition parse_digits :: "ustring \<Rightarrow> ustring \<times> ustring" where
  "parse_digits s = (takeWhile is_digit s, dropWhile is_digit s)"

definition parse_exponent :: "ustring \<Rightarrow> (int \<times> ustring) option" where
  \<comment> \<open>What follows \<open>e\<close> or \<open>E\<close>: an optional sign and at least one digit.\<close>
  "parse_exponent s =
     (let (neg, s1) =
            (case s of
               [] \<Rightarrow> (False, s)
             | c # r \<Rightarrow> if c = code CHR ''-'' then (True, r) else if c = code CHR ''+'' then (False, r)
                        else (False, s));
          (ds, s2) = parse_digits s1
      in if ds = [] then None
         else Some (if neg then - digits_value ds else digits_value ds, s2))"

definition parse_number :: "ustring \<Rightarrow> (number \<times> ustring) option" where
  "parse_number s =
     (let (neg, s1) = (case s of [] \<Rightarrow> (False, s)
                       | c # r \<Rightarrow> if c = code CHR ''-'' then (True, r) else (False, s));
          (ip, s2) = parse_digits s1
      in if ip = [] \<or> (length ip > 1 \<and> hd ip = code CHR ''0'') then None
         else
           (case (case s2 of
                    [] \<Rightarrow> Some ([], s2)
                  | c # r \<Rightarrow>
                      if c = code CHR ''.'' then
                        (let (fp, s3) = parse_digits r in if fp = [] then None else Some (fp, s3))
                      else Some ([], s2)) of
              None \<Rightarrow> None
            | Some (fp, s3) \<Rightarrow>
                (case (case s3 of
                         [] \<Rightarrow> Some (0, s3)
                       | c # r \<Rightarrow>
                           if c = code CHR ''e'' \<or> c = code CHR ''E'' then parse_exponent r
                           else Some (0, s3)) of
                   None \<Rightarrow> None
                 | Some (ex, s4) \<Rightarrow>
                     (let mant = of_int (digits_value ip)
                                 + of_int (digits_value fp) / (10 ^ length fp);
                          scaled = (if 0 \<le> ex then mant * 10 ^ nat ex
                                    else mant / 10 ^ nat (- ex));
                          d = to_double scaled
                      in Some (if neg then negate d else d, s4)))))"

subsection \<open>Values\<close>

fun parse_value :: "nat \<Rightarrow> ustring \<Rightarrow> (json \<times> ustring) option"
  and parse_elements :: "nat \<Rightarrow> json list \<Rightarrow> ustring \<Rightarrow> (json \<times> ustring) option"
  and parse_members :: "nat \<Rightarrow> (ustring \<times> json) list \<Rightarrow> ustring \<Rightarrow> (json \<times> ustring) option"
  where
  "parse_value 0 s = None"
| "parse_value (Suc f) s =
     (case skip_ws s of
        [] \<Rightarrow> None
      | c # r \<Rightarrow>
          if c = code CHR ''{'' then
            (case skip_ws r of
               [] \<Rightarrow> None
             | c' # r' \<Rightarrow> if c' = code CHR ''}'' then Some (JObj [], r') else parse_members f [] r)
          else if c = code CHR ''['' then
            (case skip_ws r of
               [] \<Rightarrow> None
             | c' # r' \<Rightarrow> if c' = code CHR '']'' then Some (JArr [] [], r') else parse_elements f [] r)
          else if c = code CHR 0x22 then
            (case parse_string_body r of None \<Rightarrow> None | Some (t, r') \<Rightarrow> Some (JStr t, r'))
          else if starts_with (c # r) (str ''true'') then Some (JBool True, drop 4 (c # r))
          else if starts_with (c # r) (str ''false'') then Some (JBool False, drop 5 (c # r))
          else if starts_with (c # r) (str ''null'') then Some (JNull, drop 4 (c # r))
          else (case parse_number (c # r) of None \<Rightarrow> None | Some (x, r') \<Rightarrow> Some (JNum x, r')))"
| "parse_elements 0 acc s = None"
| "parse_elements (Suc f) acc s =
     (case parse_value f s of
        None \<Rightarrow> None
      | Some (v, r) \<Rightarrow>
          (case skip_ws r of
             [] \<Rightarrow> None
           | c # r' \<Rightarrow>
               if c = code CHR '','' then parse_elements f (acc @ [v]) r'
               else if c = code CHR '']'' then Some (JArr (acc @ [v]) [], r')
               else None))"
| "parse_members 0 acc s = None"
| "parse_members (Suc f) acc s =
     (case skip_ws s of
        [] \<Rightarrow> None
      | q # r \<Rightarrow>
          if q \<noteq> code CHR 0x22 then None
          else
            (case parse_string_body r of
               None \<Rightarrow> None
             | Some (k, r1) \<Rightarrow>
                 (case skip_ws r1 of
                    [] \<Rightarrow> None
                  | c # r2 \<Rightarrow>
                      if c \<noteq> code CHR '':'' then None
                      else
                        (case parse_value f r2 of
                           None \<Rightarrow> None
                         | Some (v, r3) \<Rightarrow>
                             (case skip_ws r3 of
                                [] \<Rightarrow> None
                              | c' # r4 \<Rightarrow>
                                  if c' = code CHR '','' then parse_members f (define_property acc k v) r4
                                  else if c' = code CHR ''}'' then Some (JObj (define_property acc k v), r4)
                                  else None)))))"

definition JSON_parse :: "ustring \<Rightarrow> json option" where
  "JSON_parse s =
     (case parse_value (2 * length s + 2) s of
        None \<Rightarrow> None
      | Some (v, r) \<Rightarrow> if skip_ws r = [] then Some v else None)"

section \<open>Character classes of the helper's patterns\<close>

definition any_char :: "int \<Rightarrow> bool" where
  \<comment> \<open>\<open>[\s\S]\<close>\<close>
  "any_char c = True"

definition not_newline :: "int \<Rightarrow> bool" where
  \<comment> \<open>\<open>[^\n]\<close>\<close>
  "not_newline c = (c \<noteq> code CHR 0x0A)"

definition dot_char :: "int \<Rightarrow> bool" where
  \<comment> \<open>\<open>.\<close>: any character but a line terminator\<close>
  "dot_char c = (c \<notin> {0x0A, 0x0D, 0x2028, 0x2029})"

definition word_char :: "int \<Rightarrow> bool" where
  \<comment> \<open>\<open>\w\<close>\<close>
  "word_char c =
     (in_range CHR ''a'' CHR ''z'' c \<or> in_range CHR ''A'' CHR ''Z'' c \<or> is_digit c \<or> c = code CHR ''_'')"

definition letter_char :: "int \<Rightarrow> bool" where
  \<comment> \<open>\<open>[A-Za-z]\<close>, and \<open>[A-Z]\<close> under the \<open>i\<close> flag\<close>
  "letter_char c = (in_range CHR ''a'' CHR ''z'' c \<or> in_range CHR ''A'' CHR ''Z'' c)"

definition dot_or_paren :: "int \<Rightarrow> bool" where
  \<comment> \<open>\<open>[\.\)]\<close>\<close>
  "dot_or_paren c = (c = code CHR ''.'' \<or> c = code CHR '')'')"

definition upper_A_D :: "int \<Rightarrow> bool" where
  "upper_A_D c = in_range CHR ''A'' CHR ''D'' c"

definition lower_a_d :: "int \<Rightarrow> bool" where
  "lower_a_d c = in_range CHR ''a'' CHR ''d'' c"

definition letter_A_D :: "int \<Rightarrow> bool" where
  \<comment> \<open>\<open>[A-Da-d]\<close>, and \<open>[A-D]\<close> under the \<open>i\<close> flag\<close>
  "letter_A_D c = (upper_A_D c \<or> lower_a_d c)"

definition digit_1_4 :: "int \<Rightarrow> bool" where
  "digit_1_4 c = in_range CHR ''1'' CHR ''4'' c"

definition bullet_char :: "int \<Rightarrow> bool" where
  \<comment> \<open>\<open>[-*\<bullet>]\<close>: hyphen, asterisk and the bullet U+2022\<close>
  "bullet_char c = (c = code CHR ''-'' \<or> c = code CHR ''*'' \<or> c = 0x2022)"

definition group_text :: "rmatched \<Rightarrow> nat \<Rightarrow> exn + ustring" where
  \<comment> \<open>\<open>match[k]\<close> where a string method is called on it next: a group that did not take
      part is \<open>undefined\<close>, and the call raises.\<close>
  "group_text m k = (case group m k of None \<Rightarrow> Inl TypeError | Some t \<Rightarrow> Inr t)"

section \<open>Reading the extraction response\<close>

definition re_fence :: re where
  \<comment> \<open>\<open>/```(?:json)?([\s\S]*?)```/\<close>\<close>
  "re_fence = seqs [lit ''```'', Opt (lit ''json''), Grp 1 (LazyStar (Cls any_char)), lit ''```'']"

definition re_braces :: re where
  \<comment> \<open>\<open>/\{[\s\S]*\}/\<close>\<close>
  "re_braces = seqs [chr CHR ''{'', Star (Cls any_char), chr CHR ''}'']"

definition re_fence_marks :: re where
  \<comment> \<open>\<open>/```json|```/g\<close>\<close>
  "re_fence_marks = Alt (lit ''```json'') (lit ''```'')"

definition jsonText :: "ustring \<Rightarrow> exn + ustring" where
  \<comment> \<open>\<open>(responseText.match(fence) || [null, responseText])[1].trim()\<close>\<close>
  "jsonText responseText =
     (case re_exec re_fence responseText of
        None \<Rightarrow> Inr (trim responseText)
      | Some m \<Rightarrow> (case group_text m 1 of Inl e \<Rightarrow> Inl e | Inr t \<Rightarrow> Inr (trim t)))"

definition parse_extraction_openai :: "ustring \<Rightarrow> exn + json" where
  \<comment> \<open>\<open>processScreenshotsHelper\<close>, the OpenAI branch: from the response text to
      \<open>problemInfo\<close>, before the MCQ fix.\<close>
  "parse_extraction_openai responseText =
     (case jsonText responseText of
        Inl e \<Rightarrow> Inl e
      | Inr t \<Rightarrow>
          (case JSON_parse t of
             Some v \<Rightarrow> Inr v
           | None \<Rightarrow>
               (case re_exec re_braces responseText of
                  Some m \<Rightarrow>
                    (case JSON_parse (m_text m) of
                       Some v \<Rightarrow> Inr v
                     | None \<Rightarrow> Inl (Error ''Failed to parse extracted information''))
                | None \<Rightarrow> Inl (Error ''Could not identify JSON structure in the response''))))"

definition parse_extraction_gemini :: "ustring \<Rightarrow> exn + json" where
  \<comment> \<open>The Gemini branch: the same two attempts; a failure of the second parse is the
      \<open>SyntaxError\<close> itself.\<close>
  "parse_extraction_gemini responseText =
     (case jsonText responseText of
        Inl e \<Rightarrow> Inl e
      | Inr t \<Rightarrow>
          (case JSON_parse t of
             Some v \<Rightarrow> Inr v
           | None \<Rightarrow>
               (case re_exec re_braces responseText of
                  Some m \<Rightarrow>
                    (case JSON_parse (m_text m) of Some v \<Rightarrow> Inr v | None \<Rightarrow> Inl SyntaxError)
                | None \<Rightarrow> Inl (Error ''Could not identify JSON structure in the response''))))"

definition parse_extraction_anthropic :: "ustring \<Rightarrow> exn + json" where
  \<comment> \<open>The Anthropic branch: the fence marks are deleted and the rest is parsed.\<close>
  "parse_extraction_anthropic responseText =
     (case JSON_parse (trim (re_replace_all re_fence_marks responseText [])) of
        Some v \<Rightarrow> Inr v
      | None \<Rightarrow> Inl SyntaxError)"

section \<open>Reading the solution response\<close>

record solution =
  code_text :: ustring
  thoughts :: "ustring list"
  time_complexity :: ustring
  space_complexity :: ustring

definition re_code_block :: re where
  \<comment> \<open>\<open>/```(?:\w+)?\s*([\s\S]*?)```/\<close>\<close>
  "re_code_block =
     seqs [lit ''```'', Opt (Plus (Cls word_char)), Star (Cls is_space),
           Grp 1 (LazyStar (Cls any_char)), lit ''```'']"

definition re_thoughts :: re where
  \<comment> \<open>\<open>/(?:Thoughts:|Key Insights:|Reasoning:|Approach:)([\s\S]*?)(?:Time complexity:|$)/i\<close>\<close>
  "re_thoughts =
     seqs [Alt (lit_i ''Thoughts:'') (Alt (lit_i ''Key Insights:'')
             (Alt (lit_i ''Reasoning:'') (lit_i ''Approach:''))),
           Grp 1 (LazyStar (Cls any_char)),
           Alt (lit_i ''Time complexity:'') Eol]"

definition re_bullet_line :: re where
  \<comment> \<open>\<open>/(?:^|\n)\s*(?:[-*\<bullet>]|\d+\.)\s*(.*)/g\<close>\<close>
  "re_bullet_line =
     seqs [Alt Bol (chr CHR 0x0A), Star (Cls is_space),
           Alt (Cls bullet_char) (Seq (Plus (Cls is_digit)) (chr CHR ''.'')),
           Star (Cls is_space), Grp 1 (Star (Cls dot_char))]"

definition re_bullet_head :: re where
  \<comment> \<open>\<open>/^\s*(?:[-*\<bullet>]|\d+\.)\s*/\<close>\<close>
  "re_bullet_head =
     seqs [Bol, Star (Cls is_space),
           Alt (Cls bullet_char) (Seq (Plus (Cls is_digit)) (chr CHR ''.'')),
           Star (Cls is_space)]"

definition timeComplexityPattern :: re where
  \<comment> \<open>\<open>/Time complexity:?\s*([^\n]+(?:\n[^\n]+)*?)(?=\n\s*(?:Space complexity|$))/i\<close>\<close>
  "timeComplexityPattern =
     seqs [lit_i ''Time complexity'', Opt (chr CHR '':''), Star (Cls is_space),
           Grp 1 (Seq (Plus (Cls not_newline))
                      (LazyStar (Seq (chr CHR 0x0A) (Plus (Cls not_newline))))),
           Ahead (seqs [chr CHR 0x0A, Star (Cls is_space), Alt (lit_i ''Space complexity'') Eol])]"

definition spaceComplexityPattern :: re where
  \<comment> \<open>\<open>/Space complexity:?\s*([^\n]+(?:\n[^\n]+)*?)(?=\n\s*(?:[A-Z]|$))/i\<close>\<close>
  "spaceComplexityPattern =
     seqs [lit_i ''Space complexity'', Opt (chr CHR '':''), Star (Cls is_space),
           Grp 1 (Seq (Plus (Cls not_newline))
                      (LazyStar (Seq (chr CHR 0x0A) (Plus (Cls not_newline))))),
           Ahead (seqs [chr CHR 0x0A, Star (Cls is_space), Alt (Cls letter_char) Eol])]"

definition re_big_O :: re where
  \<comment> \<open>\<open>/O\([^)]+\)/i\<close>\<close>
  "re_big_O = seqs [chr_i CHR ''O'', chr CHR ''('', Plus (Cls (\<lambda>c. c \<noteq> code CHR '')'')), chr CHR '')'']"

definition default_time_complexity :: ustring where
  "default_time_complexity =
     str ''O(n) - Linear time complexity because we only iterate through the array once. Each element is processed exactly one time, and the hashmap lookups are O(1) operations.''"

definition default_space_complexity :: ustring where
  "default_space_complexity =
     str ''O(n) - Linear space complexity because we store elements in the hashmap. In the worst case, we might need to store all elements before finding the solution pair.''"

definition normalize_complexity :: "ustring \<Rightarrow> ustring" where
  \<comment> \<open>What happens to the captured text, the same for time and for space.\<close>
  "normalize_complexity captured =
     (let c = trim captured in
      case re_exec re_big_O c of
        None \<Rightarrow> str ''O(n) - '' @ c
      | Some m \<Rightarrow>
          if \<not> str_includes c (str ''-'') \<and> \<not> str_includes c (str ''because'')
          then m_text m @ str '' - '' @ trim (replace_first c (m_text m) [])
          else c)"

definition extract_complexity :: "re \<Rightarrow> ustring \<Rightarrow> ustring \<Rightarrow> ustring" where
  "extract_complexity pattern dflt responseContent =
     (case re_exec pattern responseContent of
        None \<Rightarrow> dflt
      | Some m \<Rightarrow>
          (case group m 1 of
             None \<Rightarrow> dflt
           | Some t \<Rightarrow> if t = [] then dflt else normalize_complexity t))"

definition extract_time_complexity :: "ustring \<Rightarrow> ustring" where
  "extract_time_complexity responseContent =
     extract_complexity timeComplexityPattern default_time_complexity responseContent"

definition extract_space_complexity :: "ustring \<Rightarrow> ustring" where
  "extract_space_complexity responseContent =
     extract_complexity spaceComplexityPattern default_space_complexity responseContent"

definition extract_code :: "ustring \<Rightarrow> exn + ustring" where
  "extract_code responseContent =
     (case re_exec re_code_block responseContent of
        None \<Rightarrow> Inr responseContent
      | Some m \<Rightarrow> (case group_text m 1 of Inl e \<Rightarrow> Inl e | Inr t \<Rightarrow> Inr (trim t)))"

definition extract_thoughts :: "ustring \<Rightarrow> ustring list" where
  "extract_thoughts responseContent =
     (case re_exec re_thoughts responseContent of
        None \<Rightarrow> []
      | Some m \<Rightarrow>
          (case group m 1 of
             None \<Rightarrow> []
           | Some t \<Rightarrow>
               if t = [] then []
               else
                 (case match_all re_bullet_line t of
                    Some points \<Rightarrow>
                      filter (\<lambda>p. p \<noteq> []) (map (\<lambda>p. trim (re_replace re_bullet_head p [])) points)
                  | None \<Rightarrow> filter (\<lambda>l. l \<noteq> []) (map trim (split_char CHR 0x0A t)))))"

definition formattedResponse :: "ustring \<Rightarrow> exn + solution" where
  \<comment> \<open>\<open>generateSolutionsHelper\<close> from "Extract parts from the response" on.\<close>
  "formattedResponse responseContent =
     (case extract_code responseContent of
        Inl e \<Rightarrow> Inl e
      | Inr c \<Rightarrow>
          Inr \<lparr>code_text = c,
               thoughts = (let ts = extract_thoughts responseContent
                           in if ts \<noteq> [] then ts
                              else [str ''Solution approach based on efficiency and readability'']),
               time_complexity = extract_time_complexity responseContent,
               space_complexity = extract_space_complexity responseContent\<rparr>)"

section \<open>Multiple-choice questions\<close>

text \<open>
  \<open>extractOptionsFromText\<close> builds one pattern at run time, from the text of an option it
  has just found. The constructor \<open>new RegExp(source, 'i')\<close> is a parameter of the model:
  it gives the pattern for a source text, or \<open>None\<close> where the constructor raises a
  \<open>SyntaxError\<close>.
\<close>

type_synonym regexp_constructor = "ustring \<Rightarrow> re option"

definition re_option_upper :: re where
  \<comment> \<open>\<open>/([A-D])[\.\)]\s*([^\n]+)(?=\s*[A-D][\.\)]|$)/g\<close>\<close>
  "re_option_upper =
     seqs [Grp 1 (Cls upper_A_D), Cls dot_or_paren, Star (Cls is_space),
           Grp 2 (Plus (Cls not_newline)),
           Ahead (Alt (seqs [Star (Cls is_space), Cls upper_A_D, Cls dot_or_paren]) Eol)]"

definition re_option_lower :: re where
  \<comment> \<open>\<open>/([a-d])[\.\)]\s*([^\n]+)(?=\s*[a-d][\.\)]|$)/g\<close>\<close>
  "re_option_lower =
     seqs [Grp 1 (Cls lower_a_d), Cls dot_or_paren, Star (Cls is_space),
           Grp 2 (Plus (Cls not_newline)),
           Ahead (Alt (seqs [Star (Cls is_space), Cls lower_a_d, Cls dot_or_paren]) Eol)]"

definition re_option_digit :: re where
  \<comment> \<open>\<open>/\s*([1-4])[\.\)]\s*([^\n]+)(?=\s*[1-4][\.\)]|$)/g\<close>\<close>
  "re_option_digit =
     seqs [Star (Cls is_space), Grp 1 (Cls digit_1_4), Cls dot_or_paren, Star (Cls is_space),
           Grp 2 (Plus (Cls not_newline)),
           Ahead (Alt (seqs [Star (Cls is_space), Cls digit_1_4, Cls dot_or_paren]) Eol)]"

definition re_option_word :: re where
  \<comment> \<open>\<open>/(?:option|choice)\s*([A-Da-d])[:\.\)]\s*([^\n]+)/gi\<close>\<close>
  "re_option_word =
     seqs [Alt (lit_i ''option'') (lit_i ''choice''), Star (Cls is_space),
           Grp 1 (Cls letter_A_D), Cls (\<lambda>c. c = code CHR '':'' \<or> dot_or_paren c), Star (Cls is_space),
           Grp 2 (Plus (Cls not_newline))]"

definition optionPatterns :: "re list" where
  "optionPatterns = [re_option_upper, re_option_lower, re_option_digit, re_option_word]"

definition option_key :: "ustring \<Rightarrow> ustring" where
  "option_key g =
     (let key = toUpperCase g
      in if re_test re_digit_key key then fromCharCode (64 + parseInt key) else key)"

fun collect_options :: "(ustring \<times> json) list \<Rightarrow> rmatched list \<Rightarrow> exn + (ustring \<times> json) list" where
  \<comment> \<open>The \<open>while\<close> loop over the matches of one pattern.\<close>
  "collect_options opts [] = Inr opts"
| "collect_options opts (m # ms) =
     (case group_text m 1 of
        Inl e \<Rightarrow> Inl e
      | Inr k \<Rightarrow>
          (case group_text m 2 of
             Inl e \<Rightarrow> Inl e
           | Inr v \<Rightarrow> collect_options (assign opts (option_key k) (JStr (trim v))) ms))"

definition template_text :: "json \<Rightarrow> ustring" where
  \<comment> \<open>An option's text inside a template literal: the options hold strings, and a letter
      without an option gives \<open>undefined\<close>.\<close>
  "template_text v = (case v of JStr t \<Rightarrow> t | _ \<Rightarrow> str ''undefined'')"

definition option_pattern_source :: "ustring \<Rightarrow> json \<Rightarrow> ustring" where
  \<comment> \<open>The source \<open>\\s*${letter}[.)]\\s*${options[letter]}\<close>.\<close>
  "option_pattern_source letter v =
     [code CHR 0x5C] @ str ''s*'' @ letter @ str ''[.)]'' @ [code CHR 0x5C] @ str ''s*'' @ template_text v"

fun strip_option_texts ::
  "regexp_constructor \<Rightarrow> (ustring \<times> json) list \<Rightarrow> ustring list \<Rightarrow> ustring \<Rightarrow> exn + ustring" where
  "strip_option_texts RegExp opts [] questionText = Inr questionText"
| "strip_option_texts RegExp opts (letter # letters) questionText =
     (case RegExp (option_pattern_source letter (lookup opts letter)) of
        None \<Rightarrow> Inl SyntaxError
      | Some optRegex \<Rightarrow>
          strip_option_texts RegExp opts letters (re_replace optRegex questionText []))"

fun try_option_patterns ::
  "regexp_constructor \<Rightarrow> re list \<Rightarrow> ustring \<Rightarrow> exn + (ustring \<times> (ustring \<times> json) list)" where
  "try_option_patterns RegExp [] t = Inr (t, [])"
| "try_option_patterns RegExp (p # ps) t =
     (case exec_all p 0 t of
        [] \<Rightarrow> try_option_patterns RegExp ps t
      | m # ms \<Rightarrow>
          (case collect_options [] (m # ms) of
             Inl e \<Rightarrow> Inl e
           | Inr opts \<Rightarrow>
               (case strip_option_texts RegExp opts [str ''A'', str ''B'', str ''C'', str ''D''] t of
                  Inl e \<Rightarrow> Inl e
                | Inr questionText \<Rightarrow> Inr (questionText, opts))))"

definition options_from_lines :: "ustring \<Rightarrow> ustring \<times> (ustring \<times> json) list" where
  \<comment> \<open>No pattern found an option: the first non-blank line is the question, the next
      (at most four) are the options A to D.\<close>
  "options_from_lines t =
     (case filter (\<lambda>line. trim line \<noteq> []) (split_char CHR 0x0A t) of
        [] \<Rightarrow> (t, [])
      | l # ls \<Rightarrow> (trim l, zip [str ''A'', str ''B'', str ''C'', str ''D''] (map (\<lambda>line. JStr (trim line)) ls)))"

definition extractOptionsFromText ::
  "regexp_constructor \<Rightarrow> ustring \<Rightarrow> exn + (ustring \<times> (ustring \<times> json) list)" where
  "extractOptionsFromText RegExp t =
     (case try_option_patterns RegExp optionPatterns t of
        Inl e \<Rightarrow> Inl e
      | Inr (questionText, opts) \<Rightarrow>
          if opts = [] then Inr (options_from_lines t) else Inr (questionText, opts))"

definition extractOptionsFromValue ::
  "regexp_constructor \<Rightarrow> json \<Rightarrow> exn + (ustring \<times> (ustring \<times> json) list)" where
  \<comment> \<open>The call with \<open>question.question_text\<close>, of any type. On a value that is not a
      string the patterns run on its string form, and then either branch calls a string
      method (\<open>replace\<close> or \<open>split\<close>) on the value itself, which raises.\<close>
  "extractOptionsFromValue RegExp v =
     (case v of JStr t \<Rightarrow> extractOptionsFromText RegExp t | _ \<Rightarrow> Inl TypeError)"

definition re_numbered_question :: re where
  \<comment> \<open>\<open>/(\d+)[\.\)][\s]*([^\n]+(?:(?!\d+[\.\)][\s]*)[^\n])*)/g\<close>\<close>
  "re_numbered_question =
     seqs [Grp 1 (Plus (Cls is_digit)), Cls dot_or_paren, Star (Cls is_space),
           Grp 2 (Seq (Plus (Cls not_newline))
                      (Star (Seq (NotAhead (seqs [Plus (Cls is_digit), Cls dot_or_paren,
                                                  Star (Cls is_space)]))
                                 (Cls not_newline))))]"

definition re_lettered_question :: re where
  \<comment> \<open>\<open>/([A-Za-z])[\.\)][\s]*([^\n]+(?:(?![A-Za-z][\.\)][\s]*)[^\n])*)/g\<close>\<close>
  "re_lettered_question =
     seqs [Grp 1 (Cls letter_char), Cls dot_or_paren, Star (Cls is_space),
           Grp 2 (Seq (Plus (Cls not_newline))
                      (Star (Seq (NotAhead (seqs [Cls letter_char, Cls dot_or_paren,
                                                  Star (Cls is_space)]))
                                 (Cls not_newline))))]"

definition re_blank_line :: re where
  \<comment> \<open>\<open>/\n\s*\n/\<close>\<close>
  "re_blank_line = seqs [chr CHR 0x0A, Star (Cls is_space), chr CHR 0x0A]"

definition question_object :: "ustring \<Rightarrow> ustring \<Rightarrow> (ustring \<times> json) list \<Rightarrow> json" where
  "question_object num t opts =
     JObj [(str ''question_number'', JStr num), (str ''question_text'', JStr t), (str ''options'', JObj opts)]"

fun questions_of_matches :: "regexp_constructor \<Rightarrow> rmatched list \<Rightarrow> exn + json list" where
  "questions_of_matches RegExp [] = Inr []"
| "questions_of_matches RegExp (m # ms) =
     (case group_text m 1 of
        Inl e \<Rightarrow> Inl e
      | Inr questionNum \<Rightarrow>
          (case group_text m 2 of
             Inl e \<Rightarrow> Inl e
           | Inr g \<Rightarrow>
               (case extractOptionsFromText RegExp (trim g) of
                  Inl e \<Rightarrow> Inl e
                | Inr (questionText, opts) \<Rightarrow>
                    (case questions_of_matches RegExp ms of
                       Inl e \<Rightarrow> Inl e
                     | Inr qs \<Rightarrow> Inr (question_object questionNum questionText opts # qs)))))"

fun questions_of_blocks :: "regexp_constructor \<Rightarrow> nat \<Rightarrow> ustring list \<Rightarrow> exn + json list" where
  "questions_of_blocks RegExp i [] = Inr []"
| "questions_of_blocks RegExp i (block # blocks) =
     (case extractOptionsFromText RegExp block of
        Inl e \<Rightarrow> Inl e
      | Inr (questionText, opts) \<Rightarrow>
          (case questions_of_blocks RegExp (Suc i) blocks of
             Inl e \<Rightarrow> Inl e
           | Inr qs \<Rightarrow>
               Inr (if opts \<noteq> [] then question_object (show_nat (i + 1)) questionText opts # qs
                    else qs)))"

definition extractQuestionsFromText :: "regexp_constructor \<Rightarrow> ustring \<Rightarrow> exn + json list" where
  \<comment> \<open>The \<open>questions\<close> array of the object it returns.\<close>
  "extractQuestionsFromText RegExp t =
     (case questions_of_matches RegExp (exec_all re_numbered_question 0 t) of
        Inl e \<Rightarrow> Inl e
      | Inr numbered \<Rightarrow>
          (case questions_of_matches RegExp (exec_all re_lettered_question 0 t) of
             Inl e \<Rightarrow> Inl e
           | Inr lettered \<Rightarrow>
               if numbered @ lettered \<noteq> [] then Inr (numbered @ lettered)
               else questions_of_blocks RegExp 0
                      (filter (\<lambda>block. trim block \<noteq> []) (re_split re_blank_line t))))"

definition placeholder_questions :: json where
  "placeholder_questions =
     JObj [(str ''questions'',
        JArr [JObj [(str ''question_number'', JStr (str ''1'')),
                    (str ''question_text'', JStr (str ''Failed to extract question text properly. Please check screenshots or try again.'')),
                    (str ''options'', JObj [(str ''A'', JStr (str ''Option A'')), (str ''B'', JStr (str ''Option B'')),
                                        (str ''C'', JStr (str ''Option C'')), (str ''D'', JStr (str ''Option D''))])]] [])]"

definition default_options :: json where
  "default_options =
     JObj [(str ''A'', JStr (str ''No options extracted'')), (str ''B'', JStr []), (str ''C'', JStr []), (str ''D'', JStr [])]"

definition object_keys :: "json \<Rightarrow> exn + ustring list" where
  "object_keys v = (case object_entries v of Inl e \<Rightarrow> Inl e | Inr es \<Rightarrow> Inr (map fst es))"

definition ensure_question_number :: "nat \<Rightarrow> json \<Rightarrow> exn + json" where
  "ensure_question_number i question =
     (case get question (str ''question_number'') of
        Inl e \<Rightarrow> Inl e
      | Inr n \<Rightarrow>
          if \<not> truthy n then set_prop question (str ''question_number'') (JStr (show_nat (i + 1)))
          else Inr question)"

definition ensure_options :: "regexp_constructor \<Rightarrow> json \<Rightarrow> exn + json" where
  "ensure_options RegExp question =
     (case get question (str ''options'') of
        Inl e \<Rightarrow> Inl e
      | Inr opts \<Rightarrow>
          (case (if \<not> truthy opts then Inr True
                 else case object_keys opts of Inl e \<Rightarrow> Inl e | Inr ks \<Rightarrow> Inr (ks = [])) of
             Inl e \<Rightarrow> Inl e
           | Inr False \<Rightarrow> Inr question
           | Inr True \<Rightarrow>
               (case get question (str ''question_text'') of
                  Inl e \<Rightarrow> Inl e
                | Inr t \<Rightarrow>
                    (case extractOptionsFromValue RegExp t of
                       Inl e \<Rightarrow> Inl e
                     | Inr (questionText, found) \<Rightarrow>
                         if found \<noteq> [] then
                           (case set_prop question (str ''question_text'') (JStr questionText) of
                              Inl e \<Rightarrow> Inl e
                            | Inr q \<Rightarrow> set_prop q (str ''options'') (JObj found))
                         else set_prop question (str ''options'') default_options))))"

definition normalize_question_options :: "json \<Rightarrow> exn + json" where
  "normalize_question_options question =
     (case get question (str ''options'') of
        Inl e \<Rightarrow> Inl e
      | Inr opts \<Rightarrow>
          (case object_entries opts of
             Inl e \<Rightarrow> Inl e
           | Inr entries \<Rightarrow> set_prop question (str ''options'') (JObj (normalize_options entries))))"

definition fix_question :: "regexp_constructor \<Rightarrow> nat \<Rightarrow> json \<Rightarrow> exn + json" where
  \<comment> \<open>One round of the loop over \<open>problemInfo.questions\<close>.\<close>
  "fix_question RegExp i question =
     (case ensure_question_number i question of
        Inl e \<Rightarrow> Inl e
      | Inr q1 \<Rightarrow>
          (case ensure_options RegExp q1 of
             Inl e \<Rightarrow> Inl e
           | Inr q2 \<Rightarrow> normalize_question_options q2))"

fun fix_questions :: "regexp_constructor \<Rightarrow> nat \<Rightarrow> json list \<Rightarrow> exn + json list" where
  "fix_questions RegExp i [] = Inr []"
| "fix_questions RegExp i (q # qs) =
     (case fix_question RegExp i q of
        Inl e \<Rightarrow> Inl e
      | Inr q' \<Rightarrow>
          (case fix_questions RegExp (Suc i) qs of
             Inl e \<Rightarrow> Inl e
           | Inr qs' \<Rightarrow> Inr (q' # qs')))"

definition with_property :: "json \<Rightarrow> ustring \<Rightarrow> json \<Rightarrow> json" where
  \<comment> \<open>An object whose property \<open>k\<close>, which it has, now holds \<open>v\<close>: how a mutation of the
      value under \<open>k\<close> shows in the object.\<close>
  "with_property obj k v =
     (case obj of
        JObj kvs \<Rightarrow> JObj (replace_value kvs k v)
      | JArr xs ps \<Rightarrow> JArr xs (replace_value ps k v)
      | _ \<Rightarrow> obj)"

definition validateAndFixMCQFormat :: "regexp_constructor \<Rightarrow> json \<Rightarrow> ustring \<Rightarrow> exn + json" where
  "validateAndFixMCQFormat RegExp problemInfo rawResponse =
     (case (if \<not> truthy problemInfo then Inr None
            else case get problemInfo (str ''questions'') of
                   Inl e \<Rightarrow> Inl e
                 | Inr (JArr qs ps) \<Rightarrow> Inr (if qs = [] then None else Some (qs, ps))
                 | Inr _ \<Rightarrow> Inr None) of
        Inl e \<Rightarrow> Inl e
      | Inr None \<Rightarrow>
          (case extractQuestionsFromText RegExp rawResponse of
             Inl e \<Rightarrow> Inl e
           | Inr questions \<Rightarrow>
               if questions \<noteq> [] then Inr (JObj [(str ''questions'', JArr questions [])])
               else Inr placeholder_questions)
      | Inr (Some (qs, ps)) \<Rightarrow>
          (case fix_questions RegExp 0 qs of
             Inl e \<Rightarrow> Inl e
           | Inr qs' \<Rightarrow> Inr (with_property problemInfo (str ''questions'') (JArr qs' ps))))"

subsection \<open>Reading the answers\<close>

definition backfill_answer :: "json \<Rightarrow> nat \<Rightarrow> json \<Rightarrow> exn + json" where
  \<comment> \<open>The callback of \<open>parsed.answers.forEach\<close>, \<open>questions\<close> being
      \<open>problemInfo.questions\<close>: the answer after the call.\<close>
  "backfill_answer questions index answer =
     (case get_index questions index of
        Inl e \<Rightarrow> Inl e
      | Inr q \<Rightarrow>
          if \<not> truthy q then Inr answer
          else
            (case get answer (str ''question_text'') of
               Inl e \<Rightarrow> Inl e
             | Inr own_text \<Rightarrow>
                 (case (if \<not> truthy own_text then
                          (case get q (str ''question_text'') of
                             Inl e \<Rightarrow> Inl e
                           | Inr qt \<Rightarrow>
                               set_prop answer (str ''question_text'') (if truthy qt then qt else JStr []))
                        else Inr answer) of
                    Inl e \<Rightarrow> Inl e
                  | Inr a1 \<Rightarrow>
                      (case get a1 (str ''options'') of
                         Inl e \<Rightarrow> Inl e
                       | Inr ao \<Rightarrow>
                           if truthy ao then Inr a1
                           else
                             (case get q (str ''options'') of
                                Inl e \<Rightarrow> Inl e
                              | Inr qo \<Rightarrow>
                                  if truthy qo then set_prop a1 (str ''options'') qo else Inr a1)))))"

fun backfill_answers :: "json \<Rightarrow> nat \<Rightarrow> json list \<Rightarrow> exn + json list" where
  "backfill_answers questions i [] = Inr []"
| "backfill_answers questions i (a # rest) =
     (case backfill_answer questions i a of
        Inl e \<Rightarrow> Inl e
      | Inr a' \<Rightarrow>
          (case backfill_answers questions (Suc i) rest of
             Inl e \<Rightarrow> Inl e
           | Inr rest' \<Rightarrow> Inr (a' # rest')))"

definition backfill :: "json \<Rightarrow> json \<Rightarrow> exn + json" where
  \<comment> \<open>What \<open>parseMCQResponse\<close> does with the parsed object before returning it.\<close>
  "backfill parsed problemInfo =
     (case get parsed (str ''answers'') of
        Inl e \<Rightarrow> Inl e
      | Inr (JArr answers ps) \<Rightarrow>
          (case get problemInfo (str ''questions'') of
             Inl e \<Rightarrow> Inl e
           | Inr questions \<Rightarrow>
               if \<not> truthy questions then Inr parsed
               else
                 (case backfill_answers questions 0 answers of
                    Inl e \<Rightarrow> Inl e
                  | Inr answers' \<Rightarrow> Inr (with_property parsed (str ''answers'') (JArr answers' ps))))
      | Inr _ \<Rightarrow> Inr parsed)"

definition re_question_heading :: re where
  \<comment> \<open>\<open>/Question\s+\d+:|Q\d+:/gi\<close>\<close>
  "re_question_heading =
     Alt (seqs [lit_i ''Question'', Plus (Cls is_space), Plus (Cls is_digit), chr CHR '':''])
         (seqs [chr_i CHR ''Q'', Plus (Cls is_digit), chr CHR '':''])"

definition re_correct_answer :: re where
  \<comment> \<open>\<open>/correct\s+answer\s*(?:is|:)\s*([A-D])/i\<close>\<close>
  "re_correct_answer =
     seqs [lit_i ''correct'', Plus (Cls is_space), lit_i ''answer'', Star (Cls is_space),
           Alt (lit_i ''is'') (chr CHR '':''), Star (Cls is_space), Grp 1 (Cls letter_A_D)]"

definition re_explanation :: re where
  \<comment> \<open>\<open>/explanation\s*(?::|is)([\s\S]*?)(?:Analysis|Key concepts|$)/i\<close>\<close>
  "re_explanation =
     seqs [lit_i ''explanation'', Star (Cls is_space), Alt (chr CHR '':'') (lit_i ''is''),
           Grp 1 (LazyStar (Cls any_char)),
           Alt (lit_i ''Analysis'') (Alt (lit_i ''Key concepts'') Eol)]"

definition re_analysis :: "char \<Rightarrow> re" where
  \<comment> \<open>\<open>new RegExp(`${option}\\s*(?::|-)\\s*([^\\n]+)`, 'i')\<close> for the letters A to D\<close>
  "re_analysis option =
     seqs [chr_i option, Star (Cls is_space), Alt (chr CHR '':'') (chr CHR ''-''),
           Star (Cls is_space), Grp 1 (Plus (Cls not_newline))]"

definition re_key_concepts :: re where
  \<comment> \<open>\<open>/key\s+concepts\s*(?::|are|include)\s*([\s\S]*?)(?:\n\n|$)/i\<close>\<close>
  "re_key_concepts =
     seqs [lit_i ''key'', Plus (Cls is_space), lit_i ''concepts'', Star (Cls is_space),
           Alt (chr CHR '':'') (Alt (lit_i ''are'') (lit_i ''include'')), Star (Cls is_space),
           Grp 1 (LazyStar (Cls any_char)),
           Alt (Seq (chr CHR 0x0A) (chr CHR 0x0A)) Eol]"

fun extractAnalysis_from :: "ustring \<Rightarrow> (ustring \<times> json) list \<Rightarrow> string \<Rightarrow> (ustring \<times> json) list" where
  "extractAnalysis_from block analysis [] = analysis"
| "extractAnalysis_from block analysis (option # options) =
     extractAnalysis_from block
       (case re_exec (re_analysis option) block of
          None \<Rightarrow> analysis
        | Some m \<Rightarrow>
            (case group m 1 of
               None \<Rightarrow> analysis
             | Some t \<Rightarrow> if t = [] then analysis else assign analysis (str [option]) (JStr (trim t))))
       options"

definition extractAnalysis :: "ustring \<Rightarrow> json" where
  "extractAnalysis block = JObj (extractAnalysis_from block [] ''ABCD'')"

definition extractKeyConcepts :: "ustring \<Rightarrow> json" where
  "extractKeyConcepts block =
     (case re_exec re_key_concepts block of
        None \<Rightarrow> JArr [] []
      | Some m \<Rightarrow>
          (case group m 1 of
             None \<Rightarrow> JArr [] []
           | Some t \<Rightarrow>
               if t = [] then JArr [] []
               else JArr (map JStr (filter (\<lambda>c. c \<noteq> [])
                            (map trim (re_split (Cls (\<lambda>c. c = code CHR '','' \<or> c = code CHR 0x0A)) t)))) []))"

definition answer_of_block :: "json \<Rightarrow> nat \<Rightarrow> ustring \<Rightarrow> exn + json" where
  \<comment> \<open>One round of the loop over \<open>questionBlocks\<close>.\<close>
  "answer_of_block problemInfo i block =
     (let correctAnswer =
            (case re_exec re_correct_answer block of
               None \<Rightarrow> Inr (str ''?'')
             | Some m \<Rightarrow> group_text m 1);
          explanation =
            (case re_exec re_explanation block of
               None \<Rightarrow> Inr (str ''No explanation provided'')
             | Some m \<Rightarrow> (case group_text m 1 of Inl e \<Rightarrow> Inl e | Inr t \<Rightarrow> Inr (trim t)))
      in case correctAnswer of
           Inl e \<Rightarrow> Inl e
         | Inr ca \<Rightarrow>
             (case explanation of
                Inl e \<Rightarrow> Inl e
              | Inr ex \<Rightarrow>
                  (case get problemInfo (str ''questions'') of
                     Inl e \<Rightarrow> Inl e
                   | Inr questions \<Rightarrow>
                       (case (if truthy questions then get_index questions i else Inr questions) of
                          Inl e \<Rightarrow> Inl e
                        | Inr q \<Rightarrow>
                            (case (if truthy q then get q (str ''question_text'') else Inr (JStr [])) of
                               Inl e \<Rightarrow> Inl e
                             | Inr qt \<Rightarrow>
                                 (case (if truthy q then get q (str ''options'') else Inr (JObj [])) of
                                    Inl e \<Rightarrow> Inl e
                                  | Inr qo \<Rightarrow>
                                      Inr (JObj
                                        [(str ''question_number'', JNum (Finite (of_nat (i + 1)))),
                                         (str ''question_text'', if truthy qt then qt else JStr []),
                                         (str ''options'', if truthy qo then qo else JObj []),
                                         (str ''correct_answer'', JStr ca),
                                         (str ''explanation'', JStr ex),
                                         (str ''analysis'', extractAnalysis block),
                                         (str ''key_concepts'', extractKeyConcepts block)])))))))"

fun answers_of_blocks :: "json \<Rightarrow> nat \<Rightarrow> ustring list \<Rightarrow> exn + json list" where
  "answers_of_blocks problemInfo i [] = Inr []"
| "answers_of_blocks problemInfo i (block # blocks) =
     (case answer_of_block problemInfo i block of
        Inl e \<Rightarrow> Inl e
      | Inr a \<Rightarrow>
          (case answers_of_blocks problemInfo (Suc i) blocks of
             Inl e \<Rightarrow> Inl e
           | Inr rest \<Rightarrow> Inr (a # rest)))"

definition answers_object :: "json list \<Rightarrow> json" where
  "answers_object answers = JObj [(str ''answers'', JArr answers [])]"

definition parseMCQResponse_try :: "ustring \<Rightarrow> json \<Rightarrow> exn + json" where
  \<comment> \<open>The body of the \<open>try\<close>.\<close>
  "parseMCQResponse_try content problemInfo =
     (case re_exec re_braces content of
        Some jsonMatch \<Rightarrow>
          (case JSON_parse (m_text jsonMatch) of
             None \<Rightarrow> Inl SyntaxError
           | Some parsed \<Rightarrow> backfill parsed problemInfo)
      | None \<Rightarrow>
          (case answers_of_blocks problemInfo 0
                  (filter (\<lambda>block. trim block \<noteq> []) (re_split re_question_heading content)) of
             Inl e \<Rightarrow> Inl e
           | Inr answers \<Rightarrow> Inr (answers_object answers)))"

definition parseMCQResponse :: "ustring \<Rightarrow> json \<Rightarrow> exn + json" where
  \<comment> \<open>\<open>Inl\<close> would be an exception leaving the function; the \<open>catch\<close> turns every
      exception of the body into the empty answer list.\<close>
  "parseMCQResponse content problemInfo =
     (case parseMCQResponse_try content problemInfo of
        Inl e \<Rightarrow> Inr (answers_object [])
      | Inr v \<Rightarrow> Inr v)"

section \<open>Reading the debug response\<close>

definition re_debug_code :: re where
  \<comment> \<open>\<open>/```(?:[a-zA-Z]+)?([\s\S]*?)```/\<close>\<close>
  "re_debug_code =
     seqs [lit ''```'', Opt (Plus (Cls letter_char)), Grp 1 (LazyStar (Cls any_char)), lit ''```'']"

definition re_issues :: re where
  \<comment> \<open>\<open>/issues identified|problems found|bugs found/i\<close>\<close>
  "re_issues = Alt (lit_i ''issues identified'') (Alt (lit_i ''problems found'') (lit_i ''bugs found''))"

definition re_improvements :: re where
  \<comment> \<open>\<open>/code improvements|improvements|suggested changes/i\<close>\<close>
  "re_improvements =
     Alt (lit_i ''code improvements'') (Alt (lit_i ''improvements'') (lit_i ''suggested changes''))"

definition re_optimizations :: re where
  \<comment> \<open>\<open>/optimizations|performance improvements/i\<close>\<close>
  "re_optimizations = Alt (lit_i ''optimizations'') (lit_i ''performance improvements'')"

definition re_explained :: re where
  \<comment> \<open>\<open>/explanation|detailed analysis/i\<close>\<close>
  "re_explained = Alt (lit_i ''explanation'') (lit_i ''detailed analysis'')"

definition re_debug_bullet :: re where
  \<comment> \<open>\<open>/(?:^|\n)[ ]*(?:[-*\<bullet>]|\d+\.)[ ]+([^\n]+)/g\<close>\<close>
  "re_debug_bullet =
     seqs [Alt Bol (chr CHR 0x0A), Star (chr CHR '' ''),
           Alt (Cls bullet_char) (Seq (Plus (Cls is_digit)) (chr CHR ''.'')),
           Plus (chr CHR '' ''), Grp 1 (Plus (Cls not_newline))]"

definition re_debug_bullet_head :: re where
  \<comment> \<open>\<open>/^[ ]*(?:[-*\<bullet>]|\d+\.)[ ]+/\<close>\<close>
  "re_debug_bullet_head =
     seqs [Bol, Star (chr CHR '' ''),
           Alt (Cls bullet_char) (Seq (Plus (Cls is_digit)) (chr CHR ''.'')),
           Plus (chr CHR '' '')]"

record debug_data =
  debug_code :: ustring
  debug_analysis :: ustring
  debug_thoughts :: "ustring list"

definition formattedDebug :: "ustring \<Rightarrow> debug_data" where
  \<comment> \<open>\<open>processExtraScreenshotsHelper\<close> from \<open>extractedCode\<close> on.\<close>
  "formattedDebug debugContent =
     (let extractedCode =
            (case re_exec re_debug_code debugContent of
               None \<Rightarrow> str ''// Debug mode - see analysis below''
             | Some m \<Rightarrow>
                 (case group m 1 of
                    None \<Rightarrow> str ''// Debug mode - see analysis below''
                  | Some t \<Rightarrow> if t = [] then str ''// Debug mode - see analysis below'' else trim t));
          formattedDebugContent =
            (if \<not> str_includes debugContent (str ''# '') \<and> \<not> str_includes debugContent (str ''## '')
             then re_replace re_explained
                    (re_replace re_optimizations
                       (re_replace re_improvements
                          (re_replace re_issues debugContent (str ''## Issues Identified''))
                          (str ''## Code Improvements''))
                       (str ''## Optimizations''))
                    (str ''## Explanation'')
             else debugContent)
      in \<lparr>debug_code = extractedCode,
          debug_analysis = formattedDebugContent,
          debug_thoughts =
            (case match_all re_debug_bullet formattedDebugContent of
               None \<Rightarrow> [str ''Debug analysis based on your screenshots'']
             | Some points \<Rightarrow>
                 take 5 (map (\<lambda>point. trim (re_replace re_debug_bullet_head point [])) points))\<rparr>)"

section \<open>The processing helper\<close>

text \<open>
  The state the helper reads and writes: the application state behind \<open>deps\<close> (the view, the
  problem info, the debugged flag), its own clients and abort controllers, the screenshot
  queues, and the trace of what it did to the outside: messages sent to the window, requests
  issued to a provider, controllers aborted. An \<open>AbortController\<close> is the number it was
  created under; its signal is aborted once \<open>Abort\<close> of that number is in the trace.
\<close>

datatype view = Queue | Solutions

datatype provider = OpenAI | Gemini | Anthropic | OtherProvider

datatype app_mode = Coding | MCQ

datatype stage = Extraction | Synthesis | Debugging

record js_error =
  is_cancel :: bool
  response_status :: "nat option"
  error_status :: "nat option"
  message :: string

datatype result_data =
    CodingData solution
  | McqData ustring json
  | DebugData debug_data

datatype helper_result = Success result_data | Failed string

datatype channel =
    INITIAL_START | NO_SCREENSHOTS | API_KEY_INVALID | INITIAL_SOLUTION_ERROR | SOLUTION_SUCCESS
  | PROBLEM_EXTRACTED | DEBUG_START | DEBUG_SUCCESS | DEBUG_ERROR | PROCESSING_STATUS

datatype payload =
    NoPayload
  | Message string
  | ErrorObject js_error
  | Problem json
  | Result result_data
  | Progress string nat

datatype action = Sent channel payload | Request stage provider | Abort nat

record app =
  view :: view
  problemInfo :: json
  hasDebugged :: bool
  openaiClient :: bool
  geminiApiKey :: bool
  anthropicClient :: bool
  currentProcessingAbortController :: "nat option"
  currentExtraProcessingAbortController :: "nat option"
  controllers :: nat
  screenshotQueue :: "string list"
  extraScreenshotQueue :: "string list"
  trace :: "action list"

text \<open>
  What one run meets outside the helper: the configuration, the files, what each request is
  answered with, and whether \<open>cancelOngoingRequests\<close> is called while the run is suspended
  at one of its \<open>await\<close>s. \<open>getLanguage\<close> is such an \<open>await\<close> before each request (it asks
  the window when the configuration names no language); its result only enters the prompt.
\<close>

datatype wait = ReadingFiles | BeforeCall stage | DuringCall stage

datatype reply = Replied ustring | Empty | Rejected js_error

record world =
  window :: bool
  apiProvider :: provider
  apiKey :: bool
  client_builds :: bool
  mode :: app_mode
  existsSync :: "string \<Rightarrow> bool"
  readable :: "string \<Rightarrow> bool"
  replies :: "stage \<Rightarrow> reply"
  cancel_during :: "wait \<Rightarrow> bool"
  RegExp :: regexp_constructor
  engine_error :: "exn \<Rightarrow> js_error"
  generateMCQSolutionCode :: "json \<Rightarrow> js_error + ustring"

definition plain_error :: "string \<Rightarrow> js_error" where
  \<comment> \<open>\<open>new Error(msg)\<close>\<close>
  "plain_error msg = \<lparr>is_cancel = False, response_status = None, error_status = None, message = msg\<rparr>"

definition canceled_error :: js_error where
  \<comment> \<open>What axios rejects with when the signal of a request is aborted.\<close>
  "canceled_error = \<lparr>is_cancel = True, response_status = None, error_status = None, message = ''canceled''\<rparr>"

definition thrown :: "world \<Rightarrow> exn \<Rightarrow> js_error" where
  \<comment> \<open>An exception of the parsing code as a handler sees it: the message of a
      \<open>TypeError\<close> or \<open>SyntaxError\<close> is the engine's.\<close>
  "thrown w x = (case x of Error msg \<Rightarrow> plain_error msg | _ \<Rightarrow> engine_error w x)"

definition message_or :: "js_error \<Rightarrow> string \<Rightarrow> string" where
  \<comment> \<open>\<open>error.message || dflt\<close>\<close>
  "message_or e dflt = (if message e \<noteq> [] then message e else dflt)"

definition act :: "action \<Rightarrow> app \<Rightarrow> app" where
  "act a s = s\<lparr>trace := trace s @ [a]\<rparr>"

definition send :: "world \<Rightarrow> channel \<Rightarrow> payload \<Rightarrow> app \<Rightarrow> app" where
  \<comment> \<open>\<open>if (mainWindow) mainWindow.webContents.send(...)\<close>\<close>
  "send w c p s = (if window w then act (Sent c p) s else s)"

definition aborted :: "app \<Rightarrow> nat \<Rightarrow> bool" where
  "aborted s c = (Abort c \<in> set (trace s))"

definition sent :: "app \<Rightarrow> (channel \<times> payload) list" where
  "sent s = concat (map (\<lambda>a. case a of Sent c p \<Rightarrow> [(c, p)] | _ \<Rightarrow> []) (trace s))"

definition requests :: "app \<Rightarrow> (stage \<times> provider) list" where
  "requests s = concat (map (\<lambda>a. case a of Request st p \<Rightarrow> [(st, p)] | _ \<Rightarrow> []) (trace s))"

definition initializeAIClient :: "world \<Rightarrow> app \<Rightarrow> app" where
  "initializeAIClient w s =
     (let s0 = s\<lparr>openaiClient := False, geminiApiKey := False, anthropicClient := False\<rparr>
      in case apiProvider w of
           OpenAI \<Rightarrow> if apiKey w \<and> client_builds w then s0\<lparr>openaiClient := True\<rparr> else s0
         | Gemini \<Rightarrow> if apiKey w then s0\<lparr>geminiApiKey := True\<rparr> else s0
         | Anthropic \<Rightarrow> if apiKey w \<and> client_builds w then s0\<lparr>anthropicClient := True\<rparr> else s0
         | OtherProvider \<Rightarrow> s0)"

definition cancelOngoingRequests :: "world \<Rightarrow> app \<Rightarrow> app" where
  "cancelOngoingRequests w s =
     (let s1 = (case currentProcessingAbortController s of
                  None \<Rightarrow> s
                | Some c \<Rightarrow> (act (Abort c) s)\<lparr>currentProcessingAbortController := None\<rparr>);
          s2 = (case currentExtraProcessingAbortController s1 of
                  None \<Rightarrow> s1
                | Some c \<Rightarrow> (act (Abort c) s1)\<lparr>currentExtraProcessingAbortController := None\<rparr>);
          wasCancelled = (currentProcessingAbortController s \<noteq> None
                          \<or> currentExtraProcessingAbortController s \<noteq> None);
          s3 = s2\<lparr>hasDebugged := False, problemInfo := JNull\<rparr>
      in if wasCancelled then send w NO_SCREENSHOTS NoPayload s3 else s3)"

definition suspend :: "world \<Rightarrow> wait \<Rightarrow> app \<Rightarrow> app" where
  \<comment> \<open>An \<open>await\<close>: other handlers run before the helper resumes.\<close>
  "suspend w p s = (if cancel_during w p then cancelOngoingRequests w s else s)"

definition sdk_create :: "world \<Rightarrow> provider \<Rightarrow> stage \<Rightarrow> app \<Rightarrow> app \<times> reply" where
  \<comment> \<open>\<open>await client.chat.completions.create(...)\<close> and \<open>await client.messages.create(...)\<close>:
      the call is given no signal.\<close>
  "sdk_create w p st s = (suspend w (DuringCall st) (act (Request st p) s), replies w st)"

definition axios_post :: "world \<Rightarrow> nat \<Rightarrow> stage \<Rightarrow> app \<Rightarrow> app \<times> reply" where
  \<comment> \<open>\<open>await axios.default.post(url, body, { signal })\<close>: with a signal that is already
      aborted axios rejects without sending; aborted in flight, the request is rejected
      with the same error.\<close>
  "axios_post w signal st s =
     (if aborted s signal then (s, Rejected canceled_error)
      else
        (let s' = suspend w (DuringCall st) (act (Request st Gemini) s)
         in (s', if aborted s' signal then Rejected canceled_error else replies w st)))"

definition anthropic_failure :: "bool \<Rightarrow> string \<Rightarrow> js_error \<Rightarrow> helper_result" where
  \<comment> \<open>The \<open>catch\<close> around a call of the Anthropic client; \<open>size_check\<close> tells whether it
      has the branch for status 413 and the word \<open>token\<close>.\<close>
  "anthropic_failure size_check dflt e =
     (if error_status e = Some 429
      then Failed ''Claude API rate limit exceeded. Please wait a few minutes before trying again.''
      else if size_check \<and> (error_status e = Some 413
                              \<or> (message e \<noteq> [] \<and> str_includes (message e) ''token''))
      then Failed ''Your screenshots contain too much information for Claude to process. Switch to OpenAI or Gemini in settings which can handle larger inputs.''
      else Failed dflt)"

definition reply_text :: "world \<Rightarrow> reply \<Rightarrow> js_error + ustring" where
  \<comment> \<open>Reading the text out of a response outside any inner \<open>try\<close>: a response without
      content raises a \<open>TypeError\<close>.\<close>
  "reply_text w r =
     (case r of Replied t \<Rightarrow> Inr t | Empty \<Rightarrow> Inl (engine_error w TypeError) | Rejected e \<Rightarrow> Inl e)"

subsection \<open>Multiple-choice answers\<close>

definition handleMCQResponse :: "world \<Rightarrow> json \<Rightarrow> nat \<Rightarrow> app \<Rightarrow> app \<times> helper_result" where
  "handleMCQResponse w info signal s =
     (let s1 = send w PROCESSING_STATUS
                 (Progress ''Analyzing MCQ questions and generating answers...'' 60) s;
          caught = (\<lambda>e. Failed (message_or e ''Failed to process MCQ questions''))
      in case get info (str ''questions'') of
           Inl x \<Rightarrow> (s1, caught (thrown w x))
         | Inr _ \<Rightarrow>
             (case (case apiProvider w of
                      OpenAI \<Rightarrow>
                        if \<not> openaiClient s1
                        then (s1, Inl (Failed ''OpenAI API key not configured. Please check your settings.''))
                        else (let (s2, r) = sdk_create w OpenAI Synthesis s1
                              in case reply_text w r of
                                   Inl e \<Rightarrow> (s2, Inl (caught e))
                                 | Inr t \<Rightarrow> (s2, Inr (Some t)))
                    | Gemini \<Rightarrow>
                        if \<not> geminiApiKey s1
                        then (s1, Inl (Failed ''Gemini API key not configured. Please check your settings.''))
                        else (let (s2, r) = axios_post w signal Synthesis s1
                              in case r of
                                   Replied t \<Rightarrow> (s2, Inr (Some t))
                                 | _ \<Rightarrow> (s2, Inl (Failed ''Failed to process with Gemini API. Please check your API key or try again later.'')))
                    | Anthropic \<Rightarrow>
                        if \<not> anthropicClient s1
                        then (s1, Inl (Failed ''Anthropic API key not configured. Please check your settings.''))
                        else (let (s2, r) = sdk_create w Anthropic Synthesis s1
                              in case reply_text w r of
                                   Inl e \<Rightarrow>
                                     (s2, Inl (anthropic_failure False
                                        ''Failed to process with Anthropic API. Please check your API key or try again later.'' e))
                                 | Inr t \<Rightarrow> (s2, Inr (Some t)))
                    | OtherProvider \<Rightarrow> (s1, Inr None)) of
                (s2, Inl failure) \<Rightarrow> (s2, failure)
              | (s2, Inr responseContent) \<Rightarrow>
                  (case (case responseContent of
                           None \<Rightarrow> Inr (answers_object [])
                         | Some content \<Rightarrow> parseMCQResponse content info) of
                     Inl x \<Rightarrow> (s2, caught (thrown w x))
                   | Inr parsedResponse \<Rightarrow>
                       (case generateMCQSolutionCode w parsedResponse of
                          Inl e \<Rightarrow> (s2, caught e)
                        | Inr mcqSolutionCode \<Rightarrow>
                            (s2, Success (McqData mcqSolutionCode parsedResponse))))))"

definition generateMCQSolution :: "world \<Rightarrow> nat \<Rightarrow> app \<Rightarrow> app \<times> helper_result" where
  "generateMCQSolution w signal s =
     (if \<not> truthy (problemInfo s) then (s, Failed ''No MCQ problem information available'')
      else handleMCQResponse w (problemInfo s) signal s)"

subsection \<open>Solutions\<close>

definition solution_failure :: "js_error \<Rightarrow> helper_result" where
  \<comment> \<open>The \<open>catch\<close> of \<open>generateSolutionsHelper\<close>.\<close>
  "solution_failure e =
     (if is_cancel e then Failed ''Processing was canceled by the user.''
      else if response_status e = Some 401
      then Failed ''Invalid OpenAI API key. Please check your settings.''
      else if response_status e = Some 429
      then Failed ''OpenAI API rate limit exceeded or insufficient credits. Please try again later.''
      else Failed (message_or e ''Failed to generate solution''))"

definition request_solution :: "world \<Rightarrow> nat \<Rightarrow> app \<Rightarrow> app \<times> (helper_result + ustring option)" where
  \<comment> \<open>The provider branch of \<open>generateSolutionsHelper\<close>: a result returned from inside
      it, or \<open>responseContent\<close> (\<open>None\<close> is \<open>undefined\<close>).\<close>
  "request_solution w signal s =
     (case apiProvider w of
        OpenAI \<Rightarrow>
          if \<not> openaiClient s
          then (s, Inl (Failed ''OpenAI API key not configured. Please check your settings.''))
          else (let (s', r) = sdk_create w OpenAI Synthesis s
                in case reply_text w r of
                     Inl e \<Rightarrow> (s', Inl (solution_failure e))
                   | Inr t \<Rightarrow> (s', Inr (Some t)))
      | Gemini \<Rightarrow>
          if \<not> geminiApiKey s
          then (s, Inl (Failed ''Gemini API key not configured. Please check your settings.''))
          else (let (s', r) = axios_post w signal Synthesis s
                in case r of
                     Replied t \<Rightarrow> (s', Inr (Some t))
                   | _ \<Rightarrow> (s', Inl (Failed ''Failed to generate solution with Gemini API. Please check your API key or try again later.'')))
      | Anthropic \<Rightarrow>
          if \<not> anthropicClient s
          then (s, Inl (Failed ''Anthropic API key not configured. Please check your settings.''))
          else (let (s', r) = sdk_create w Anthropic Synthesis s
                in case reply_text w r of
                     Inl e \<Rightarrow>
                       (s', Inl (anthropic_failure True
                          ''Failed to generate solution with Anthropic API. Please check your API key or try again later.'' e))
                   | Inr t \<Rightarrow> (s', Inr (Some t)))
      | OtherProvider \<Rightarrow> (s, Inr None))"

definition generateSolutionsHelper :: "world \<Rightarrow> nat \<Rightarrow> app \<Rightarrow> app \<times> helper_result" where
  \<comment> \<open>\<open>problemInfo\<close> is read before the \<open>await\<close> of \<open>getLanguage\<close> and tested after it.\<close>
  "generateSolutionsHelper w signal s =
     (if mode w = MCQ then generateMCQSolution w signal s
      else
        (let info = problemInfo s;
             s1 = suspend w (BeforeCall Synthesis) s
         in if \<not> truthy info then (s1, solution_failure (plain_error ''No problem info available''))
            else
              (let s2 = send w PROCESSING_STATUS
                          (Progress ''Creating optimal solution with detailed explanations...'' 60) s1
               in case request_solution w signal s2 of
                    (s3, Inl failure) \<Rightarrow> (s3, failure)
                  | (s3, Inr None) \<Rightarrow> (s3, solution_failure (engine_error w TypeError))
                  | (s3, Inr (Some responseContent)) \<Rightarrow>
                      (case formattedResponse responseContent of
                         Inl x \<Rightarrow> (s3, solution_failure (thrown w x))
                       | Inr sol \<Rightarrow> (s3, Success (CodingData sol))))))"

subsection \<open>Extraction and the whole primary helper\<close>

definition helper_failure :: "js_error \<Rightarrow> helper_result" where
  \<comment> \<open>The \<open>catch\<close> of \<open>processScreenshotsHelper\<close>.\<close>
  "helper_failure e =
     (if is_cancel e then Failed ''Processing was canceled by the user.''
      else if response_status e = Some 401
      then Failed ''Invalid OpenAI API key. Please check your settings.''
      else if response_status e = Some 429
      then Failed ''OpenAI API rate limit exceeded or insufficient credits. Please try again later.''
      else if response_status e = Some 500
      then Failed ''OpenAI server error. Please try again later.''
      else Failed (message_or e ''Failed to process screenshots. Please try again.''))"

definition fix_if_mcq :: "world \<Rightarrow> ustring \<Rightarrow> exn + json \<Rightarrow> exn + json" where
  "fix_if_mcq w responseText parsed =
     (case parsed of
        Inl x \<Rightarrow> Inl x
      | Inr v \<Rightarrow> if mode w = MCQ then validateAndFixMCQFormat (RegExp w) v responseText else Inr v)"

definition request_extraction :: "world \<Rightarrow> nat \<Rightarrow> app \<Rightarrow> app \<times> (helper_result + json)" where
  \<comment> \<open>The provider branch of \<open>processScreenshotsHelper\<close>: a result returned from inside
      it (\<open>Inl\<close>), or \<open>problemInfo\<close>.\<close>
  "request_extraction w signal s =
     (case apiProvider w of
        OpenAI \<Rightarrow>
          (let s1 = (if \<not> openaiClient s then initializeAIClient w s else s)
           in if \<not> openaiClient s1
              then (s1, Inl (Failed ''OpenAI API key not configured or invalid. Please check your settings.''))
              else (let (s2, r) = sdk_create w OpenAI Extraction s1
                    in case r of
                         Rejected e \<Rightarrow> (s2, Inl (helper_failure e))
                       | Empty \<Rightarrow> (s2, Inl (Failed ''Failed to parse problem information. Please try again or use clearer screenshots.''))
                       | Replied t \<Rightarrow>
                           (case fix_if_mcq w t (parse_extraction_openai t) of
                              Inl x \<Rightarrow> (s2, Inl (Failed ''Failed to parse problem information. Please try again or use clearer screenshots.''))
                            | Inr v \<Rightarrow> (s2, Inr v))))
      | Gemini \<Rightarrow>
          if \<not> geminiApiKey s
          then (s, Inl (Failed ''Gemini API key not configured. Please check your settings.''))
          else (let (s2, r) = axios_post w signal Extraction s
                in case r of
                     Replied t \<Rightarrow>
                       (case fix_if_mcq w t (parse_extraction_gemini t) of
                          Inl x \<Rightarrow> (s2, Inl (Failed ''Failed to process with Gemini API. Please check your API key or try again later.''))
                        | Inr v \<Rightarrow> (s2, Inr v))
                   | _ \<Rightarrow> (s2, Inl (Failed ''Failed to process with Gemini API. Please check your API key or try again later.'')))
      | Anthropic \<Rightarrow>
          if \<not> anthropicClient s
          then (s, Inl (Failed ''Anthropic API key not configured. Please check your settings.''))
          else (let (s2, r) = sdk_create w Anthropic Extraction s;
                    failure = anthropic_failure True
                      ''Failed to process with Anthropic API. Please check your API key or try again later.''
                in case reply_text w r of
                     Inl e \<Rightarrow> (s2, Inl (failure e))
                   | Inr t \<Rightarrow>
                       (case parse_extraction_anthropic t of
                          Inl x \<Rightarrow> (s2, Inl (failure (thrown w x)))
                        | Inr v \<Rightarrow> (s2, Inr v)))
      | OtherProvider \<Rightarrow> (s, Inr JUndefined))"

definition finish_helper ::
  "world \<Rightarrow> string \<Rightarrow> string \<Rightarrow> app \<times> helper_result \<Rightarrow> app \<times> helper_result" where
  \<comment> \<open>What \<open>processScreenshotsHelper\<close> does with the result of the second stage; a failure
      is thrown on (\<open>new Error(result.error || dflt)\<close>), into its own \<open>catch\<close>.\<close>
  "finish_helper w done dflt sr =
     (case sr of
        (s, Success d) \<Rightarrow>
          (send w SOLUTION_SUCCESS (Result d)
             (send w PROCESSING_STATUS (Progress done 100) (s\<lparr>extraScreenshotQueue := []\<rparr>)),
           Success d)
      | (s, Failed msg) \<Rightarrow>
          (s, helper_failure (plain_error (if msg \<noteq> [] then msg else dflt))))"

definition processScreenshotsHelper :: "world \<Rightarrow> nat \<Rightarrow> app \<Rightarrow> app \<times> helper_result" where
  "processScreenshotsHelper w signal s =
     (let s0 = suspend w (BeforeCall Extraction) s;
          s1 = send w PROCESSING_STATUS
                 (Progress (if mode w = MCQ then ''Analyzing MCQ questions from screenshots...''
                            else ''Analyzing problem from screenshots...'') 20) s0
      in case request_extraction w signal s1 of
           (s2, Inl failure) \<Rightarrow> (s2, failure)
         | (s2, Inr info) \<Rightarrow>
             (let s3 = send w PROCESSING_STATUS
                         (Progress (if mode w = MCQ
                                    then ''MCQ questions analyzed successfully. Preparing to generate answers...''
                                    else ''Problem analyzed successfully. Preparing to generate solution...'') 40) s2;
                  s4 = s3\<lparr>problemInfo := info\<rparr>
              in if \<not> window w then (s4, Failed ''Failed to process screenshots'')
                 else
                   (let s5 = send w PROBLEM_EXTRACTED (Problem info) s4
                    in if mode w = MCQ
                       then finish_helper w ''MCQ analysis completed successfully'' ''Failed to analyze MCQ questions''
                              (handleMCQResponse w info signal s5)
                       else finish_helper w ''Solution generated successfully'' ''Failed to generate solutions''
                              (generateSolutionsHelper w signal s5))))"

subsection \<open>The debug helper\<close>

definition debug_failure :: "js_error \<Rightarrow> helper_result" where
  \<comment> \<open>The \<open>catch\<close> of \<open>processExtraScreenshotsHelper\<close>.\<close>
  "debug_failure e = Failed (message_or e ''Failed to process debug request'')"

definition request_debug :: "world \<Rightarrow> nat \<Rightarrow> app \<Rightarrow> app \<times> (helper_result + ustring option)" where
  "request_debug w signal s =
     (case apiProvider w of
        OpenAI \<Rightarrow>
          if \<not> openaiClient s
          then (s, Inl (Failed ''OpenAI API key not configured. Please check your settings.''))
          else (let s1 = send w PROCESSING_STATUS
                           (Progress ''Analyzing code and generating debug feedback...'' 60) s;
                    (s2, r) = sdk_create w OpenAI Debugging s1
                in case reply_text w r of
                     Inl e \<Rightarrow> (s2, Inl (debug_failure e))
                   | Inr t \<Rightarrow> (s2, Inr (Some t)))
      | Gemini \<Rightarrow>
          if \<not> geminiApiKey s
          then (s, Inl (Failed ''Gemini API key not configured. Please check your settings.''))
          else (let s1 = send w PROCESSING_STATUS
                           (Progress ''Analyzing code and generating debug feedback with Gemini...'' 60) s;
                    (s2, r) = axios_post w signal Debugging s1
                in case r of
                     Replied t \<Rightarrow> (s2, Inr (Some t))
                   | _ \<Rightarrow> (s2, Inl (Failed ''Failed to process debug request with Gemini API. Please check your API key or try again later.'')))
      | Anthropic \<Rightarrow>
          if \<not> anthropicClient s
          then (s, Inl (Failed ''Anthropic API key not configured. Please check your settings.''))
          else (let s1 = send w PROCESSING_STATUS
                           (Progress ''Analyzing code and generating debug feedback with Claude...'' 60) s;
                    (s2, r) = sdk_create w Anthropic Debugging s1
                in case reply_text w r of
                     Inl e \<Rightarrow>
                       (s2, Inl (anthropic_failure True
                          ''Failed to process debug request with Anthropic API. Please check your API key or try again later.'' e))
                   | Inr t \<Rightarrow> (s2, Inr (Some t)))
      | OtherProvider \<Rightarrow> (s, Inr None))"

definition processExtraScreenshotsHelper :: "world \<Rightarrow> nat \<Rightarrow> app \<Rightarrow> app \<times> helper_result" where
  "processExtraScreenshotsHelper w signal s =
     (let info = problemInfo s;
          s1 = suspend w (BeforeCall Debugging) s
      in if \<not> truthy info then (s1, debug_failure (plain_error ''No problem info available''))
         else
           (let s2 = send w PROCESSING_STATUS
                       (Progress ''Processing debug screenshots and text inputs...'' 30) s1
            in case request_debug w signal s2 of
                 (s3, Inl failure) \<Rightarrow> (s3, failure)
               | (s3, Inr responseContent) \<Rightarrow>
                   (let s4 = send w PROCESSING_STATUS (Progress ''Debug analysis complete'' 100) s3
                    in case responseContent of
                         None \<Rightarrow> (s4, debug_failure (engine_error w TypeError))
                       | Some debugContent \<Rightarrow>
                           (s4, Success (DebugData (formattedDebug debugContent))))))"

subsection \<open>Processing the queues\<close>

definition new_controller :: "app \<Rightarrow> app \<times> nat" where
  \<comment> \<open>\<open>new AbortController()\<close>\<close>
  "new_controller s = (s\<lparr>controllers := Suc (controllers s)\<rparr>, controllers s)"

definition begin_primary :: "app \<Rightarrow> app \<times> nat" where
  \<comment> \<open>\<open>this.currentProcessingAbortController = new AbortController()\<close>; the second
      component is its signal.\<close>
  "begin_primary s =
     (let (s', c) = new_controller s in (s'\<lparr>currentProcessingAbortController := Some c\<rparr>, c))"

definition begin_debug :: "app \<Rightarrow> app \<times> nat" where
  "begin_debug s =
     (let (s', c) = new_controller s in (s'\<lparr>currentExtraProcessingAbortController := Some c\<rparr>, c))"

definition finally_primary :: "app \<Rightarrow> app" where
  "finally_primary s = s\<lparr>currentProcessingAbortController := None\<rparr>"

definition finally_debug :: "app \<Rightarrow> app" where
  "finally_debug s = s\<lparr>currentExtraProcessingAbortController := None\<rparr>"

definition settle_primary :: "world \<Rightarrow> helper_result \<Rightarrow> app \<Rightarrow> app" where
  \<comment> \<open>From the result of \<open>processScreenshotsHelper\<close> to the end of the \<open>try\<close>, then
      \<open>finally\<close>.\<close>
  "settle_primary w result s =
     finally_primary
       (case result of
          Failed msg \<Rightarrow>
            (if str_includes msg ''API Key'' \<or> str_includes msg ''OpenAI'' \<or> str_includes msg ''Gemini''
             then send w API_KEY_INVALID NoPayload s
             else send w INITIAL_SOLUTION_ERROR (Message msg) s)\<lparr>view := Queue\<rparr>
        | Success d \<Rightarrow> (send w SOLUTION_SUCCESS (Result d) s)\<lparr>view := Solutions\<rparr>)"

definition fail_primary :: "world \<Rightarrow> js_error \<Rightarrow> app \<Rightarrow> app" where
  \<comment> \<open>The \<open>catch\<close> of the primary branch, then \<open>finally\<close>.\<close>
  "fail_primary w e s =
     finally_primary
       ((send w INITIAL_SOLUTION_ERROR
           (Message (if is_cancel e then ''Processing was canceled by the user.''
                     else message_or e ''Server error. Please try again.''))
           (send w INITIAL_SOLUTION_ERROR (ErrorObject e) s))\<lparr>view := Queue\<rparr>)"

definition settle_debug :: "world \<Rightarrow> helper_result \<Rightarrow> app \<Rightarrow> app" where
  "settle_debug w result s =
     finally_debug
       (case result of
          Success d \<Rightarrow> send w DEBUG_SUCCESS (Result d) (s\<lparr>hasDebugged := True\<rparr>)
        | Failed msg \<Rightarrow> send w DEBUG_ERROR (Message msg) s)"

definition fail_debug :: "world \<Rightarrow> js_error \<Rightarrow> app \<Rightarrow> app" where
  "fail_debug w e s =
     finally_debug
       (send w DEBUG_ERROR
          (Message (if is_cancel e then ''Extra processing was canceled by the user.'' else message e)) s)"

definition verify_client :: "world \<Rightarrow> app \<Rightarrow> app \<times> bool" where
  \<comment> \<open>"First verify we have a valid AI client": the state, and whether to go on.\<close>
  "verify_client w s =
     (case apiProvider w of
        OpenAI \<Rightarrow>
          if \<not> openaiClient s
          then (let s' = initializeAIClient w s
                in if \<not> openaiClient s' then (send w API_KEY_INVALID NoPayload s', False) else (s', True))
          else (s, True)
      | Gemini \<Rightarrow>
          if \<not> geminiApiKey s
          then (let s' = initializeAIClient w s
                in if \<not> geminiApiKey s' then (send w API_KEY_INVALID NoPayload s', False) else (s', True))
          else (s, True)
      | Anthropic \<Rightarrow>
          if \<not> anthropicClient s
          then (let s' = initializeAIClient w s
                in if \<not> anthropicClient s' then (send w API_KEY_INVALID NoPayload s', False) else (s', True))
          else (s, True)
      | OtherProvider \<Rightarrow> (s, True))"

definition process_primary :: "world \<Rightarrow> app \<Rightarrow> app" where
  \<comment> \<open>The branch \<open>view === "queue"\<close>.\<close>
  "process_primary w s =
     (let s1 = send w INITIAL_START NoPayload s
      in if screenshotQueue s1 = [] then send w NO_SCREENSHOTS NoPayload s1
         else
           (let existingScreenshots = filter (existsSync w) (screenshotQueue s1)
            in if existingScreenshots = [] then send w NO_SCREENSHOTS NoPayload s1
               else
                 (let (s2, signal) = begin_primary s1;
                      s3 = suspend w ReadingFiles s2
                  in if filter (readable w) existingScreenshots = []
                     then fail_primary w (plain_error ''Failed to load screenshot data'') s3
                     else (let (s4, result) = processScreenshotsHelper w signal s3
                           in settle_primary w result s4))))"

definition process_debug :: "world \<Rightarrow> app \<Rightarrow> app" where
  \<comment> \<open>The other branch: the view is \<open>solutions\<close>.\<close>
  "process_debug w s =
     (if extraScreenshotQueue s = [] then send w NO_SCREENSHOTS NoPayload s
      else
        (let existingExtraScreenshots = filter (existsSync w) (extraScreenshotQueue s)
         in if existingExtraScreenshots = [] then send w NO_SCREENSHOTS NoPayload s
            else
              (let s1 = send w DEBUG_START NoPayload s;
                   (s2, signal) = begin_debug s1;
                   allPaths = screenshotQueue s2 @ existingExtraScreenshots;
                   s3 = suspend w ReadingFiles s2
               in if filter (\<lambda>p. existsSync w p \<and> readable w p) allPaths = []
                  then fail_debug w (plain_error ''Failed to load screenshot data for debugging'') s3
                  else (let (s4, result) = processExtraScreenshotsHelper w signal s3
                        in settle_debug w result s4))))"

definition processScreenshots :: "world \<Rightarrow> app \<Rightarrow> app" where
  "processScreenshots w s =
     (if \<not> window w then s
      else
        (case verify_client w s of
           (s1, False) \<Rightarrow> s1
         | (s1, True) \<Rightarrow> if view s1 = Queue then process_primary w s1 else process_debug w s1))"


section \<open>Example runs\<close>

definition no_regexp :: regexp_constructor where
  "no_regexp src = None"

definition some_engine_error :: "exn \<Rightarrow> js_error" where
  "some_engine_error x = plain_error ''engine message''"

definition initial_app :: app where
  \<comment> \<open>The queue view with one screenshot and every client ready.\<close>
  "initial_app =
     \<lparr>view = Queue, problemInfo = JNull, hasDebugged = False, openaiClient = True,
      geminiApiKey = True, anthropicClient = True, currentProcessingAbortController = None,
      currentExtraProcessingAbortController = None, controllers = 0,
      screenshotQueue = [''shot.png''], extraScreenshotQueue = [], trace = []\<rparr>"

definition solved_app :: app where
  \<comment> \<open>The solutions view after a run, with one debug screenshot.\<close>
  "solved_app =
     initial_app\<lparr>view := Solutions, problemInfo := JObj [(str ''problem_statement'', JStr (str ''Sum''))],
                 extraScreenshotQueue := [''debug.png'']\<rparr>"

definition example_world :: "provider \<Rightarrow> (stage \<Rightarrow> reply) \<Rightarrow> (wait \<Rightarrow> bool) \<Rightarrow> world" where
  \<comment> \<open>Coding mode, every file present and readable.\<close>
  "example_world p answers cancels =
     \<lparr>window = True, apiProvider = p, apiKey = True, client_builds = True, mode = Coding,
      existsSync = (\<lambda>path. True), readable = (\<lambda>path. True), replies = answers,
      cancel_during = cancels, RegExp = no_regexp, engine_error = some_engine_error,
      generateMCQSolutionCode = (\<lambda>v. Inr [])\<rparr>"

definition two_replies :: "stage \<Rightarrow> reply" where
  \<comment> \<open>An empty problem object, then a solution text.\<close>
  "two_replies st =
     (case st of Extraction \<Rightarrow> Replied (str ''{}'') | _ \<Rightarrow> Replied (str ''x = 1''))"

definition rate_limited :: js_error where
  \<comment> \<open>A request rejected with HTTP 429.\<close>
  "rate_limited =
     \<lparr>is_cancel = False, response_status = Some 429, error_status = Some 429,
      message = ''Request failed with status code 429''\<rparr>"

section \<open>Vocabulary of the properties\<close>

definition field :: "json \<Rightarrow> ustring \<Rightarrow> json" where
  \<comment> \<open>The value read under a property name, \<open>undefined\<close> where there is none.\<close>
  "field v k = (case get v k of Inl e \<Rightarrow> JUndefined | Inr x \<Rightarrow> x)"

definition element :: "json \<Rightarrow> nat \<Rightarrow> json" where
  "element v i = (case get_index v i of Inl e \<Rightarrow> JUndefined | Inr x \<Rightarrow> x)"




section \<open>Properties of the option-key normalisation\<close>

lemma re_search_Bol_Suc: "re_search (Seq Bol r) (Suc n) s = None"
  by (induction s arbitrary: n) auto

lemma re_test_anchored_class:
  "re_test (Seq Bol (Seq (Cls p) Eol)) key \<longleftrightarrow> (\<exists>c. key = [c] \<and> p c)"
proof (cases key)
  case Nil
  then show ?thesis by (simp add: re_test_def re_exec_def)
next
  case (Cons x xs)
  then show ?thesis
    by (cases xs) (auto simp: re_test_def re_exec_def re_search_Bol_Suc)
qed

lemma str_char [simp]: "str [c] = [code c]"
  by (simp add: str_def)

lemma code_values [simp]:
  "code CHR ''1'' = 49" "code CHR ''2'' = 50" "code CHR ''3'' = 51" "code CHR ''4'' = 52"
  "code CHR ''a'' = 97" "code CHR ''b'' = 98" "code CHR ''c'' = 99" "code CHR ''d'' = 100"
  "code CHR ''A'' = 65" "code CHR ''B'' = 66" "code CHR ''C'' = 67" "code CHR ''D'' = 68"
  "code CHR ''Z'' = 90" "code CHR ''z'' = 122" "code CHR ''i'' = 105" "code CHR ''k'' = 107"
  by (simp_all add: code_def)

lemma in_range_1_4: "in_range CHR ''1'' CHR ''4'' c \<longleftrightarrow> c \<in> {49, 50, 51, 52}"
  by (auto simp: in_range_def)

lemma in_range_a_d: "in_range CHR ''a'' CHR ''d'' c \<longleftrightarrow> c \<in> {97, 98, 99, 100}"
  by (auto simp: in_range_def)

lemma lower_char_not_empty: "lower_char c \<noteq> []"
  by (simp add: lower_char_def)

lemma toLowerCase_single:
  assumes "toLowerCase key = [c]"
  shows "\<exists>k. key = [k] \<and> lower_char k = [c]"
proof (cases key)
  case Nil
  with assms show ?thesis by (simp add: toLowerCase_def)
next
  case (Cons k ks)
  with assms have eq: "lower_char k @ concat (map lower_char ks) = [c]"
    by (simp add: toLowerCase_def)
  with lower_char_not_empty [of k] have l: "lower_char k = [c]" and r: "concat (map lower_char ks) = []"
    by (auto simp: append_eq_Cons_conv)
  from r have "ks = []"
    using lower_char_not_empty by (cases ks) auto
  with Cons l show ?thesis by simp
qed

lemma lower_char_a_d:
  "(\<exists>c. lower_char k = [c] \<and> c \<in> {97, 98, 99, 100}) \<longleftrightarrow> k \<in> {97, 98, 99, 100, 65, 66, 67, 68}"
  by (auto simp: lower_char_def in_range_def split: if_splits)

lemma normalize_key_other:
  assumes "key \<notin> {str ''1'', str ''2'', str ''3'', str ''4'', str ''a'', str ''b'', str ''c'', str ''d''}"
  shows "normalize_key key = key"
proof -
  have d: "\<not> re_test re_digit_key key"
    using assms by (auto simp: re_digit_key_def re_test_anchored_class in_range_1_4)
  have "toUpperCase key = key" if "re_test re_letter_key (toLowerCase key)"
  proof -
    from that obtain c where c: "toLowerCase key = [c]" "c \<in> {97, 98, 99, 100}"
      by (auto simp: re_letter_key_def re_test_anchored_class in_range_a_d)
    then obtain k where k: "key = [k]" "lower_char k = [c]"
      using toLowerCase_single by blast
    with c have "k \<in> {97, 98, 99, 100, 65, 66, 67, 68}"
      using lower_char_a_d [of k] by blast
    with assms k have "k \<in> {65, 66, 67, 68}" by auto
    with k show ?thesis by (auto simp: toUpperCase_def upper_char_def in_range_def)
  qed
  with d show ?thesis by (simp add: normalize_key_def)
qed

lemma map_of_replace_value:
  "map_of (replace_value kvs k v) x =
     (if x = k \<and> k \<in> fst ` set kvs then Some v else map_of kvs x)"
proof (induction kvs)
  case Nil
  show ?case by simp
next
  case (Cons p kvs)
  obtain k' v' where p: "p = (k', v')" by (cases p)
  show ?case using Cons.IH by (force simp: p)
qed

lemma map_of_insert_index:
  "k \<notin> fst ` set kvs \<Longrightarrow>
     map_of (insert_index kvs k v) x = (if x = k then Some v else map_of kvs x)"
proof (induction kvs)
  case Nil
  show ?case by simp
next
  case (Cons p kvs)
  obtain k' v' where p: "p = (k', v')" by (cases p)
  with Cons.prems have ne: "k' \<noteq> k" and notin: "k \<notin> fst ` set kvs" by auto
  show ?case using Cons.IH [OF notin] ne by (auto simp: p)
qed

lemma map_of_snoc_fresh:
  assumes "k \<notin> fst ` set kvs"
  shows "map_of (kvs @ [(k, v)]) x = (if x = k then Some v else map_of kvs x)"
proof -
  from assms have "map_of kvs k = None" by (simp add: map_of_eq_None_iff)
  then show ?thesis by (simp add: map_add_def split: option.splits)
qed

lemma map_of_define_property:
  "map_of (define_property kvs k v) x = (if x = k then Some v else map_of kvs x)"
  by (auto simp: define_property_def map_of_replace_value map_of_insert_index map_of_snoc_fresh
      simp del: map_of_append)

lemma map_of_assign:
  "map_of (assign kvs k v) x =
     (if k \<noteq> str ''__proto__'' \<and> x = k then Some v else map_of kvs x)"
  by (simp add: assign_def map_of_define_property)

lemma map_of_normalize_fold:
  "map_of (foldl (\<lambda>acc (k, v). assign acc (normalize_key k) v) acc entries) k' =
     (if k' = str ''__proto__'' then map_of acc k'
      else case map_of (rev (map (\<lambda>(k, v). (normalize_key k, v)) entries)) k' of
             Some v \<Rightarrow> Some v | None \<Rightarrow> map_of acc k')"
proof (induction entries arbitrary: acc)
  case Nil
  show ?case by simp
next
  case (Cons e entries)
  obtain k v where e: "e = (k, v)" by (cases e)
  show ?case
    by (auto simp: e Cons.IH map_of_assign map_add_def split: option.splits)
qed

lemma map_of_normalize_options:
  "map_of (normalize_options opts) k' =
     (if k' = str ''__proto__'' then None
      else map_of (rev (map (\<lambda>(k, v). (normalize_key k, v)) opts)) k')"
  by (simp add: normalize_options_def map_of_normalize_fold split: option.splits)

text \<open>
  C7 (as amended). Key normalisation maps the keys \<open>1\<close> to \<open>4\<close> to \<open>A\<close> to \<open>D\<close>,
  upper-cases the keys \<open>a\<close> to \<open>d\<close> and leaves every other key as it is. Each entry's
  value is assigned under its normalised key, in property order: the value found under a key
  of the result is that of the last entry normalised to it, and the key \<open>__proto__\<close> creates
  no property.
\<close>

theorem normalize_options_last_wins:
  "normalize_key (str ''1'') = str ''A'' \<and> normalize_key (str ''2'') = str ''B''
   \<and> normalize_key (str ''3'') = str ''C'' \<and> normalize_key (str ''4'') = str ''D''
   \<and> normalize_key (str ''a'') = str ''A'' \<and> normalize_key (str ''b'') = str ''B''
   \<and> normalize_key (str ''c'') = str ''C'' \<and> normalize_key (str ''d'') = str ''D''
   \<and> (key \<notin> {str ''1'', str ''2'', str ''3'', str ''4'', str ''a'', str ''b'', str ''c'', str ''d''}
        \<longrightarrow> normalize_key key = key)
   \<and> map_of (normalize_options opts) k' =
       (if k' = str ''__proto__'' then None
        else map_of (rev (map (\<lambda>(k, v). (normalize_key k, v)) opts)) k')"
proof -
  have "normalize_key (str ''1'') = str ''A''" "normalize_key (str ''2'') = str ''B''"
    "normalize_key (str ''3'') = str ''C''" "normalize_key (str ''4'') = str ''D''"
    "normalize_key (str ''a'') = str ''A''" "normalize_key (str ''b'') = str ''B''"
    "normalize_key (str ''c'') = str ''C''" "normalize_key (str ''d'') = str ''D''"
    by code_simp+
  then show ?thesis
    using normalize_key_other [of key] map_of_normalize_options [of opts k'] by simp
qed

theorem normalize_options_last_wins_witness:
  "str ''Z'' \<notin> {str ''1'', str ''2'', str ''3'', str ''4'', str ''a'', str ''b'', str ''c'', str ''d''}
   \<and> normalize_key (str ''Z'') = str ''Z''
   \<and> map_of (normalize_options [(str ''1'', JStr (str ''Paris''))]) (str ''A'')
       = Some (JStr (str ''Paris''))"
proof -
  have k: "normalize_key (str ''1'') = str ''A''" by code_simp
  have z: "str ''Z'' \<notin> {str ''1'', str ''2'', str ''3'', str ''4'', str ''a'', str ''b'', str ''c'', str ''d''}"
    by (simp add: code_def)
  have p: "str ''A'' \<noteq> str ''__proto__''"
    by (simp add: str_def)
  show ?thesis
    using normalize_options_last_wins [of "str ''Z''" "[(str ''1'', JStr (str ''Paris''))]" "str ''A''"] z p
    by (simp add: k)
qed

theorem normalize_options_collision_counterexample:
  "map_of (normalize_options [(str ''1'', JStr (str ''Paris'')), (str ''A'', JStr (str ''London''))])
     (normalize_key (str ''1'')) \<noteq> Some (JStr (str ''Paris''))"
  by code_simp

section \<open>Properties of the request lifecycle\<close>

lemma view_act [simp]: "view (act a s) = view s"
  by (simp add: act_def)

lemma view_send [simp]: "view (send w c p s) = view s"
  by (simp add: send_def)

lemma view_initializeAIClient [simp]: "view (initializeAIClient w s) = view s"
  by (simp add: initializeAIClient_def Let_def split: provider.splits)

lemma view_cancelOngoingRequests [simp]: "view (cancelOngoingRequests w s) = view s"
  by (simp add: cancelOngoingRequests_def Let_def split: option.splits)

lemma view_suspend [simp]: "view (suspend w p s) = view s"
  by (simp add: suspend_def)

lemma view_sdk_create [simp]: "view (fst (sdk_create w p st s)) = view s"
  by (simp add: sdk_create_def)

lemma view_axios_post [simp]: "view (fst (axios_post w signal st s)) = view s"
  by (simp add: axios_post_def Let_def)

lemma view_request_debug [simp]: "view (fst (request_debug w signal s)) = view s"
  by (simp add: request_debug_def Let_def split_beta split: provider.splits sum.splits reply.splits)

lemma view_processExtraScreenshotsHelper [simp]:
  "view (fst (processExtraScreenshotsHelper w signal s)) = view s"
  by (simp add: processExtraScreenshotsHelper_def Let_def split_beta
      split: sum.splits option.splits)

lemma view_verify_client [simp]: "view (fst (verify_client w s)) = view s"
  by (simp add: verify_client_def Let_def split: provider.splits)

lemma view_begin_debug [simp]: "view (fst (begin_debug s)) = view s"
  by (simp add: begin_debug_def new_controller_def)

lemma view_settle_debug [simp]: "view (settle_debug w r s) = view s"
  by (simp add: settle_debug_def finally_debug_def split: helper_result.splits)

lemma view_fail_debug [simp]: "view (fail_debug w e s) = view s"
  by (simp add: fail_debug_def finally_debug_def)

lemma view_process_debug: "view (process_debug w s) = view s"
  by (simp add: process_debug_def Let_def split_beta)

lemma settle_primary_failed_view: "view (settle_primary w (Failed msg) s) = Queue"
  by (simp add: settle_primary_def finally_primary_def)

lemma fail_primary_view: "view (fail_primary w e s) = Queue"
  by (simp add: fail_primary_def finally_primary_def)

lemma settle_primary_cases:
  "window w \<Longrightarrow>
   view (settle_primary w r s) = Queue
   \<or> (\<exists>d. last (trace (settle_primary w r s)) = Sent SOLUTION_SUCCESS (Result d))"
  by (cases r) (simp_all add: settle_primary_def finally_primary_def send_def act_def)

lemma process_primary_view:
  assumes "window w" "view s = Queue"
  shows "view (process_primary w s) = Queue
     \<or> (\<exists>d. last (trace (process_primary w s)) = Sent SOLUTION_SUCCESS (Result d))"
  using assms settle_primary_cases [of w]
  by (simp add: process_primary_def Let_def split_beta fail_primary_view)

lemma trace_begin_primary: "trace (fst (begin_primary s)) = trace s"
  by (simp add: begin_primary_def new_controller_def)

lemma slot_begin_primary:
  "currentProcessingAbortController (fst (begin_primary s)) = Some (snd (begin_primary s))"
  by (simp add: begin_primary_def new_controller_def)

lemma extra_slot_begin_primary:
  "currentExtraProcessingAbortController (fst (begin_primary s))
     = currentExtraProcessingAbortController s"
  by (simp add: begin_primary_def new_controller_def)

lemma signal_begin_primary: "snd (begin_primary s) = controllers s"
  by (simp add: begin_primary_def new_controller_def)

lemma controllers_begin_primary: "controllers (fst (begin_primary s)) = Suc (controllers s)"
  by (simp add: begin_primary_def new_controller_def)

lemma slot_settle_primary: "currentProcessingAbortController (settle_primary w r s) = None"
  by (simp add: settle_primary_def finally_primary_def)

lemma slot_fail_primary: "currentProcessingAbortController (fail_primary w e s) = None"
  by (simp add: fail_primary_def finally_primary_def)

lemma aborted_cancelOngoingRequests:
  "aborted (cancelOngoingRequests w s) c \<longleftrightarrow>
     aborted s c \<or> currentProcessingAbortController s = Some c
     \<or> currentExtraProcessingAbortController s = Some c"
  by (auto simp: cancelOngoingRequests_def aborted_def Let_def send_def act_def
      split: option.splits)

lemma trace_suspend: "set (trace s) \<subseteq> set (trace (suspend w p s))"
  by (auto simp: suspend_def cancelOngoingRequests_def Let_def send_def act_def
      split: option.splits)

lemma openai_request_sent_although_aborted:
  assumes "apiProvider w = OpenAI" "openaiClient s"
  shows "Request Synthesis OpenAI \<in> set (trace (fst (request_solution w signal s)))"
proof -
  have "Request Synthesis OpenAI \<in> set (trace (act (Request Synthesis OpenAI) s))"
    by (simp add: act_def)
  then have "Request Synthesis OpenAI \<in> set (trace (fst (sdk_create w OpenAI Synthesis s)))"
    using trace_suspend [of "act (Request Synthesis OpenAI) s" w "DuringCall Synthesis"]
    by (auto simp: sdk_create_def)
  with assms show ?thesis
    by (simp add: request_solution_def split_beta split: sum.splits)
qed

text \<open>
  C1. The Gemini requests are given the signal, so a token aborted before the synthesis stage
  keeps the request from being sent. The OpenAI and Anthropic requests are not given it: in
  the first run below the token is aborted while \<open>generateSolutionsHelper\<close> waits for the
  language, after the extraction has completed, and the synthesis request is issued all the
  same; so it is with the Anthropic client, and when the token is aborted while the
  extraction request is in flight.
\<close>

theorem synthesis_request_after_abort:
  "Request Synthesis OpenAI \<in> set (trace (processScreenshots
       (example_world OpenAI two_replies (\<lambda>p. p = BeforeCall Synthesis)) initial_app))
   \<and> Abort 0 \<in> set (takeWhile (\<lambda>a. a \<noteq> Request Synthesis OpenAI) (trace (processScreenshots
       (example_world OpenAI two_replies (\<lambda>p. p = BeforeCall Synthesis)) initial_app)))
   \<and> Request Extraction OpenAI \<in> set (takeWhile (\<lambda>a. a \<noteq> Abort 0) (trace (processScreenshots
       (example_world OpenAI two_replies (\<lambda>p. p = BeforeCall Synthesis)) initial_app)))
   \<and> Abort 0 \<in> set (takeWhile (\<lambda>a. a \<noteq> Request Synthesis Anthropic) (trace (processScreenshots
       (example_world Anthropic two_replies (\<lambda>p. p = BeforeCall Synthesis)) initial_app)))
   \<and> Request Synthesis Anthropic \<in> set (trace (processScreenshots
       (example_world Anthropic two_replies (\<lambda>p. p = BeforeCall Synthesis)) initial_app))
   \<and> Abort 0 \<in> set (takeWhile (\<lambda>a. a \<noteq> Request Synthesis OpenAI) (trace (processScreenshots
       (example_world OpenAI two_replies (\<lambda>p. p = DuringCall Extraction)) initial_app)))
   \<and> Request Synthesis OpenAI \<in> set (trace (processScreenshots
       (example_world OpenAI two_replies (\<lambda>p. p = DuringCall Extraction)) initial_app))
   \<and> Request Synthesis Gemini \<notin> set (trace (processScreenshots
       (example_world Gemini two_replies (\<lambda>p. p = BeforeCall Synthesis)) initial_app))"
  by code_simp

lemma gemini_request_not_sent_once_aborted:
  assumes "apiProvider w = Gemini" "aborted s signal"
  shows "trace (fst (request_solution w signal s)) = trace s"
  using assms by (simp add: request_solution_def axios_post_def)

text \<open>
  C2 (as amended). Starting a primary run stores a new controller in the primary slot and
  aborts nothing: after a second start the slot holds the second controller, the trace is
  what it was (no controller was aborted), \<open>cancelOngoingRequests\<close> no longer reaches the
  first controller through the primary slot, and the settlement of either run clears the
  slot.
\<close>

theorem second_start_replaces_controller:
  "currentProcessingAbortController (fst (begin_primary (fst (begin_primary s))))
     = Some (snd (begin_primary (fst (begin_primary s))))
   \<and> snd (begin_primary (fst (begin_primary s))) \<noteq> snd (begin_primary s)
   \<and> trace (fst (begin_primary (fst (begin_primary s)))) = trace s
   \<and> (aborted (cancelOngoingRequests w (fst (begin_primary (fst (begin_primary s)))))
         (snd (begin_primary s))
       \<longleftrightarrow> (aborted s (snd (begin_primary s))
            \<or> currentExtraProcessingAbortController s = Some (snd (begin_primary s))))
   \<and> currentProcessingAbortController
        (settle_primary w r (fst (begin_primary (fst (begin_primary s))))) = None
   \<and> currentProcessingAbortController
        (fail_primary w e (fst (begin_primary (fst (begin_primary s))))) = None"
proof -
  let ?s1 = "fst (begin_primary s)"
  let ?s2 = "fst (begin_primary ?s1)"
  let ?c = "snd (begin_primary s)"
  have ne: "snd (begin_primary ?s1) \<noteq> ?c"
    by (simp add: signal_begin_primary controllers_begin_primary)
  have same: "aborted ?s2 ?c \<longleftrightarrow> aborted s ?c"
    by (simp add: aborted_def trace_begin_primary)
  have "aborted (cancelOngoingRequests w ?s2) ?c
        \<longleftrightarrow> aborted ?s2 ?c \<or> currentProcessingAbortController ?s2 = Some ?c
            \<or> currentExtraProcessingAbortController ?s2 = Some ?c"
    by (rule aborted_cancelOngoingRequests)
  with ne same have "aborted (cancelOngoingRequests w ?s2) ?c
        \<longleftrightarrow> (aborted s ?c \<or> currentExtraProcessingAbortController s = Some ?c)"
    by (simp add: slot_begin_primary extra_slot_begin_primary)
  then show ?thesis
    using ne
    by (simp add: slot_begin_primary trace_begin_primary slot_settle_primary slot_fail_primary)
qed

theorem second_start_replaces_controller_witness:
  "currentProcessingAbortController (fst (begin_primary (fst (begin_primary initial_app))))
     = Some (snd (begin_primary (fst (begin_primary initial_app))))
   \<and> snd (begin_primary (fst (begin_primary initial_app))) \<noteq> snd (begin_primary initial_app)
   \<and> trace (fst (begin_primary (fst (begin_primary initial_app)))) = []"
  using second_start_replaces_controller
    [of initial_app "example_world OpenAI two_replies (\<lambda>p. False)" "Failed []" canceled_error]
  by (simp add: initial_app_def)

theorem second_start_counterexample:
  "\<not> aborted (fst (begin_primary (fst (begin_primary initial_app))))
       (snd (begin_primary initial_app))
   \<and> currentProcessingAbortController (fst (begin_primary (fst (begin_primary initial_app))))
       = Some 1
   \<and> currentProcessingAbortController
       (settle_primary (example_world OpenAI two_replies (\<lambda>p. False)) (Failed ''failed'')
          (fst (begin_primary (fst (begin_primary initial_app))))) = None"
  by code_simp

text \<open>
  C3. A cancellation is reported as a failure. The cancellation error of a Gemini request
  is raised inside the inner \<open>try\<close> around \<open>axios.post\<close>, whose \<open>catch\<close> returns a fixed
  failure text; that text holds the word \<open>Gemini\<close>, so a primary run ends by sending
  \<open>API_KEY_INVALID\<close>, and a debug run by sending the text on \<open>DEBUG_ERROR\<close>. The reset
  signal \<open>NO_SCREENSHOTS\<close> was sent before, by \<open>cancelOngoingRequests\<close>. The handlers that
  test \<open>axios.isCancel\<close> never see the error. The three runs are canceled while the
  extraction request, the synthesis request and the debug request are in flight.
\<close>

theorem gemini_cancellation_reported_as_failure:
  "trace (processScreenshots
       (example_world Gemini two_replies (\<lambda>p. p = DuringCall Extraction)) initial_app)
     = [Sent INITIAL_START NoPayload,
        Sent PROCESSING_STATUS (Progress ''Analyzing problem from screenshots...'' 20),
        Request Extraction Gemini, Abort 0, Sent NO_SCREENSHOTS NoPayload,
        Sent API_KEY_INVALID NoPayload]
   \<and> trace (processScreenshots
       (example_world Gemini two_replies (\<lambda>p. p = DuringCall Synthesis)) initial_app)
     = [Sent INITIAL_START NoPayload,
        Sent PROCESSING_STATUS (Progress ''Analyzing problem from screenshots...'' 20),
        Request Extraction Gemini,
        Sent PROCESSING_STATUS
          (Progress ''Problem analyzed successfully. Preparing to generate solution...'' 40),
        Sent PROBLEM_EXTRACTED (Problem (JObj [])),
        Sent PROCESSING_STATUS
          (Progress ''Creating optimal solution with detailed explanations...'' 60),
        Request Synthesis Gemini, Abort 0, Sent NO_SCREENSHOTS NoPayload,
        Sent API_KEY_INVALID NoPayload]
   \<and> trace (processScreenshots
       (example_world Gemini two_replies (\<lambda>p. p = DuringCall Debugging)) solved_app)
     = [Sent DEBUG_START NoPayload,
        Sent PROCESSING_STATUS (Progress ''Processing debug screenshots and text inputs...'' 30),
        Sent PROCESSING_STATUS
          (Progress ''Analyzing code and generating debug feedback with Gemini...'' 60),
        Request Debugging Gemini, Abort 0, Sent NO_SCREENSHOTS NoPayload,
        Sent DEBUG_ERROR (Message ''Failed to process debug request with Gemini API. Please check your API key or try again later.'')]"
  by code_simp

text \<open>
  C4 (as amended). A primary run, started in the queue view, leaves the view at \<open>queue\<close>
  unless it ends by sending the solution: every primary run that ends with an error returns
  to the queue view. A debug run, started in the solutions view, leaves the view at
  \<open>solutions\<close> however it ends.
\<close>

theorem error_returns_primary_run_to_queue:
  "(view s = Queue \<longrightarrow>
      view (processScreenshots w s) = Queue
      \<or> (\<exists>d. last (trace (processScreenshots w s)) = Sent SOLUTION_SUCCESS (Result d)))
   \<and> (view s = Solutions \<longrightarrow> view (processScreenshots w s) = Solutions)"
proof (cases "window w")
  case False
  then show ?thesis by (simp add: processScreenshots_def)
next
  case True
  obtain s1 go where v: "verify_client w s = (s1, go)" by (cases "verify_client w s")
  then have s1: "view s1 = view s" using view_verify_client [of w s] by simp
  show ?thesis
  proof (cases go)
    case False
    with True v s1 show ?thesis by (simp add: processScreenshots_def)
  next
    case go: True
    show ?thesis
    proof (cases "view s")
      case Queue
      with True v s1 go process_primary_view [of w s1] show ?thesis
        by (simp add: processScreenshots_def)
    next
      case Solutions
      with True v s1 go show ?thesis
        by (simp add: processScreenshots_def view_process_debug)
    qed
  qed
qed

theorem error_returns_primary_run_to_queue_witness:
  "view initial_app = Queue
   \<and> view (processScreenshots (example_world OpenAI (\<lambda>st. Rejected rate_limited) (\<lambda>p. False))
        initial_app) = Queue
   \<and> view solved_app = Solutions
   \<and> view (processScreenshots (example_world OpenAI two_replies (\<lambda>p. False)) solved_app)
       = Solutions"
proof -
  let ?w = "example_world OpenAI (\<lambda>st. Rejected rate_limited) (\<lambda>p. False)"
  have q: "view initial_app = Queue" and s: "view solved_app = Solutions"
    by (simp_all add: initial_app_def solved_app_def)
  have l: "last (trace (processScreenshots ?w initial_app))
      = Sent API_KEY_INVALID NoPayload"
    by code_simp
  from q error_returns_primary_run_to_queue [of initial_app ?w]
  have "view (processScreenshots ?w initial_app) = Queue
      \<or> (\<exists>d. last (trace (processScreenshots ?w initial_app)) = Sent SOLUTION_SUCCESS (Result d))"
    by blast
  then have a: "view (processScreenshots ?w initial_app) = Queue"
    unfolding l by simp
  from s error_returns_primary_run_to_queue
      [of solved_app "example_world OpenAI two_replies (\<lambda>p. False)"]
  have b: "view (processScreenshots (example_world OpenAI two_replies (\<lambda>p. False)) solved_app)
      = Solutions"
    by blast
  from q a s b show ?thesis by blast
qed

theorem debug_error_counterexample:
  "view (processScreenshots (example_world Gemini (\<lambda>st. Rejected rate_limited) (\<lambda>p. False))
      solved_app) = Solutions
   \<and> last (trace (processScreenshots (example_world Gemini (\<lambda>st. Rejected rate_limited)
      (\<lambda>p. False)) solved_app))
     = Sent DEBUG_ERROR (Message ''Failed to process debug request with Gemini API. Please check your API key or try again later.'')"
  by code_simp

section \<open>Properties of the complexity extraction\<close>

text \<open>
  C5. A complexity line is found only when a line break follows it: the look-ahead of the
  pattern asks for one before the end of the text. The text \<open>Time complexity: O(n log n)
  because we sort first.\<close> alone gives the default estimate; followed by a line break it
  gives the sentence as it is. In a response that ends with its space complexity line, the
  time complexity is the sentence as it is and the space complexity is the default.
\<close>

theorem complexity_line_at_end_of_text:
  "extract_time_complexity (str ''Time complexity: O(n log n) because we sort first.'')
     = default_time_complexity
   \<and> extract_time_complexity (str ''Time complexity: O(n log n) because we sort first.\<newline>'')
     = str ''O(n log n) because we sort first.''
   \<and> extract_time_complexity
       (str ''Time complexity: O(n log n) because we sort first.\<newline>Space complexity: O(1) because nothing is stored.'')
     = str ''O(n log n) because we sort first.''
   \<and> extract_space_complexity
       (str ''Time complexity: O(n log n) because we sort first.\<newline>Space complexity: O(1) because nothing is stored.'')
     = default_space_complexity
   \<and> extract_space_complexity
       (str ''Time complexity: O(n log n) because we sort first.\<newline>Space complexity: O(1) because nothing is stored.\<newline>'')
     = str ''O(1) because nothing is stored.''"
  by code_simp

section \<open>Properties of the fenced-block extraction\<close>

lemma str_Nil [simp]: "str [] = []"
  by (simp add: str_def)

lemma str_Cons [simp]: "str (x # xs) = code x # str xs"
  by (simp add: str_def)

lemma length_str [simp]: "length (str p) = length p"
  by (simp add: str_def)

lemma rmatch_chr:
  "rmatch (chr x) (c, n, s)
     = (case s of [] \<Rightarrow> [] | y # ys \<Rightarrow> if y = code x then [(c, Suc n, ys)] else [])"
  by (simp add: chr_def)

lemma rmatch_lit:
  "rmatch (lit p) (c, n, s)
     = (if starts_with s (str p) then [(c, n + length p, drop (length p) s)] else [])"
proof (induction p arbitrary: n s)
  case Nil
  show ?case by simp
next
  case (Cons x xs)
  show ?case
    by (cases s) (simp_all add: rmatch_chr Cons.IH)
qed

lemma rmatch_lazy_any:
  "rmatch (LazyStar (Cls any_char)) (c, n, s)
     = map (\<lambda>k. (c, n + k, drop k s)) [0..<Suc (length s)]"
proof (induction s arbitrary: n)
  case Nil
  show ?case by simp
next
  case (Cons x xs)
  have "map (\<lambda>k. (c, n + k, drop k (x # xs))) [0..<Suc (length (x # xs))]
      = (c, n, x # xs) # map (\<lambda>k. (c, Suc n + k, drop k xs)) [0..<Suc (length xs)]"
    by (simp add: upt_conv_Cons map_Suc_upt [symmetric] del: upt_Suc)
  moreover have "rmatch (LazyStar (Cls any_char)) (c, n, x # xs)
      = (c, n, x # xs) # rmatch (LazyStar (Cls any_char)) (c, Suc n, xs)"
    by (subst rmatch.simps(6)) (simp add: any_char_def del: rmatch.simps(6))
  ultimately show ?case
    by (simp only: Cons.IH)
qed

lemma rmatch_group_lazy_any:
  "rmatch (Grp g (LazyStar (Cls any_char))) (c, n, s)
     = map (\<lambda>k. ((g, take k s) # c, n + k, drop k s)) [0..<Suc (length s)]"
  by (simp add: rmatch_lazy_any del: upt_Suc rmatch.simps(6))

lemma starts_with_append: "starts_with s p \<Longrightarrow> starts_with (s @ t) p"
  by (induction s p rule: starts_with.induct) simp_all

lemma str_includes_append: "str_includes s p \<Longrightarrow> str_includes (s @ t) p"
proof (induction s)
  case Nil
  then show ?case by (cases t) simp_all
next
  case (Cons x xs)
  then show ?case using starts_with_append [of "x # xs" p t] by auto
qed

lemma fence_in_front:
  assumes "starts_with (x # xs @ str ''```'' @ rest) (str ''```'')"
  shows "starts_with (x # xs @ str ''``'') (str ''```'')"
proof (cases xs)
  case Nil
  with assms show ?thesis by simp
next
  case (Cons a ys)
  with assms show ?thesis by (cases ys) simp_all
qed

lemma no_fence_before_end:
  assumes "\<not> str_includes (inner @ str ''``'') (str ''```'')" "k < length inner"
  shows "\<not> starts_with (drop k (inner @ str ''```'' @ rest)) (str ''```'')"
  using assms
proof (induction inner arbitrary: k)
  case Nil
  then show ?case by simp
next
  case (Cons x xs)
  show ?case
  proof (cases k)
    case 0
    with Cons.prems fence_in_front [of x xs rest] show ?thesis by auto
  next
    case (Suc j)
    with Cons.prems Cons.IH [of j] show ?thesis by simp
  qed
qed

lemma concat_map_empty: "(\<And>x. x \<in> set xs \<Longrightarrow> f x = []) \<Longrightarrow> concat (map f xs) = []"
  by (induction xs) simp_all

lemma upt_split_at:
  "k \<le> m \<Longrightarrow> [0..<Suc m] = [0..<k] @ k # [Suc k..<Suc m]"
proof -
  assume "k \<le> m"
  then obtain d where m: "Suc m = k + Suc d" by (metis add_Suc_right le_Suc_ex)
  have "[0..<k + Suc d] = [0..<k] @ [k..<k + Suc d]"
    by (rule upt_add_eq_append) simp
  moreover have "[k..<k + Suc d] = k # [Suc k..<k + Suc d]"
    by (simp add: upt_conv_Cons del: upt_Suc)
  ultimately show ?thesis unfolding m by simp
qed

lemma first_closing_fence:
  assumes "\<not> str_includes (inner @ str ''``'') (str ''```'')"
  shows "\<exists>others. rmatch (Seq (Grp g (LazyStar (Cls any_char))) (lit ''```''))
             (c, n, inner @ str ''```'' @ rest)
           = ((g, inner) # c, n + length inner + 3, rest) # others"
proof -
  let ?s = "inner @ str ''```'' @ rest"
  define h where "h = (\<lambda>k. rmatch (lit ''```'') ((g, take k ?s) # c, n + k, drop k ?s))"
  have split: "[0..<Suc (length ?s)]
      = [0..<length inner] @ length inner # [Suc (length inner)..<Suc (length ?s)]"
    by (rule upt_split_at) simp
  have before: "concat (map h [0..<length inner]) = []"
    using no_fence_before_end [OF assms, of _ rest]
    by (intro concat_map_empty) (simp add: h_def rmatch_lit del: lit.simps str_Cons)
  have at_end: "h (length inner) = [((g, inner) # c, n + length inner + 3, rest)]"
    by (simp add: h_def rmatch_lit del: lit.simps)
  have "rmatch (Seq (Grp g (LazyStar (Cls any_char))) (lit ''```'')) (c, n, ?s)
      = concat (map h [0..<Suc (length ?s)])"
    by (simp add: h_def rmatch_group_lazy_any comp_def
        del: upt_Suc rmatch.simps(6) rmatch.simps(9) lit.simps str_Cons)
  also have "\<dots> = concat (map h [0..<length inner]) @ h (length inner)
      @ concat (map h [Suc (length inner)..<Suc (length ?s)])"
    by (subst split) simp
  finally show ?thesis by (simp add: before at_end)
qed

lemma re_fence_unfold:
  "re_fence = Seq (lit ''```'') (Seq (Opt (lit ''json''))
                (Seq (Grp 1 (LazyStar (Cls any_char))) (lit ''```'')))"
  by (simp add: re_fence_def del: lit.simps)

lemma rmatch_fence_needs_fence:
  "\<not> starts_with s (str ''```'') \<Longrightarrow> rmatch re_fence (c, n, s) = []"
  by (simp add: re_fence_unfold rmatch_lit del: lit.simps rmatch.simps(6) str_Cons)

lemma no_fence_no_match:
  "\<not> str_includes s (str ''```'') \<Longrightarrow> re_search re_fence n s = None"
proof (induction s arbitrary: n)
  case Nil
  then show ?case by (simp add: rmatch_fence_needs_fence)
next
  case (Cons x xs)
  then have "\<not> starts_with (x # xs) (str ''```'')" "\<not> str_includes xs (str ''```'')"
    by simp_all
  with Cons.IH show ?case by (simp add: rmatch_fence_needs_fence del: str_Cons)
qed

lemma trim_keeps_first:
  assumes "\<not> is_space x"
  shows "\<exists>ys. trim (x # xs) = x # ys"
proof -
  have "dropWhile is_space (rev xs @ [x]) = dropWhile is_space (rev xs) @ [x]"
    using assms by (simp add: dropWhile_append3)
  with assms show ?thesis by (simp add: trim_def)
qed

lemma JSON_parse_letter_j: "JSON_parse (code CHR ''j'' # ys) = None"
proof -
  obtain f where f: "2 * length (code CHR ''j'' # ys) + 2 = Suc f" by simp
  have "parse_number (code CHR ''j'' # ys) = None"
    by (simp add: parse_number_def parse_digits_def is_digit_def in_range_def code_def)
  then have "parse_value (Suc f) (code CHR ''j'' # ys) = None"
    by (simp add: skip_ws_def json_ws_def code_def)
  then show ?thesis unfolding JSON_parse_def f by simp
qed

lemma valid_json_is_no_tag:
  assumes "JSON_parse (trim inner) = Some v"
  shows "\<not> starts_with inner (str ''json'')"
proof
  assume s: "starts_with inner (str ''json'')"
  show False
  proof (cases inner)
    case Nil
    with s show False by simp
  next
    case (Cons x xs)
    with s have "x = code CHR ''j''" by simp
    moreover have "\<not> is_space (code CHR ''j'')" by (simp add: is_space_def code_def)
    ultimately obtain ys where "trim inner = code CHR ''j'' # ys"
      using trim_keeps_first [of "code CHR ''j''" xs] Cons by auto
    with assms show False by (simp add: JSON_parse_letter_j)
  qed
qed

lemma no_tag_before_fence:
  assumes "\<not> starts_with inner (str ''json'')"
  shows "\<not> starts_with (inner @ str ''```'') (str ''json'')"
proof (cases inner)
  case Nil
  then show ?thesis by (simp add: code_def)
next
  case (Cons a i1)
  show ?thesis
  proof (cases i1)
    case Nil
    with Cons assms show ?thesis by (simp add: code_def)
  next
    case (Cons b i2)
    note c2 = this
    show ?thesis
    proof (cases i2)
      case Nil
      with \<open>inner = a # i1\<close> c2 assms show ?thesis by (simp add: code_def)
    next
      case (Cons c i3)
      with \<open>inner = a # i1\<close> c2 assms show ?thesis by (cases i3) (simp_all add: code_def)
    qed
  qed
qed

lemma fence_match:
  assumes "tag = [] \<and> \<not> starts_with inner (str ''json'') \<or> tag = str ''json''"
    and "\<not> str_includes (inner @ str ''``'') (str ''```'')"
  shows "\<exists>m. re_exec re_fence (str ''```'' @ tag @ inner @ str ''```'') = Some m
           \<and> group m 1 = Some inner"
proof -
  define R where "R = Seq (Grp 1 (LazyStar (Cls any_char))) (lit ''```'')"
  have fence: "re_fence = Seq (lit ''```'') (Seq (Opt (lit ''json'')) R)"
    by (simp add: re_fence_def R_def del: lit.simps)
  have tail: "\<exists>others. rmatch R ([], n, inner @ str ''```'')
      = ([(1, inner)], n + length inner + 3, []) # others" for n
    using first_closing_fence [OF assms(2), of 1 "[]" n "[]"] by (simp add: R_def del: str_Cons)
  have "\<exists>st others. rmatch (Seq (Opt (lit ''json'')) R) ([], 3, tag @ inner @ str ''```'')
      = st # others \<and> fst st = [(1, inner)]"
  proof (cases "tag = []")
    case True
    with assms(1) have "\<not> starts_with inner (str ''json'')" by (auto simp: code_def)
    then have "\<not> starts_with (inner @ str ''```'') (str ''json'')"
      by (rule no_tag_before_fence)
    with True tail [of 3] show ?thesis
      by (auto simp: Opt_def rmatch_lit simp del: lit.simps str_Cons)
  next
    case False
    with assms(1) have t: "tag = str ''json''" by simp
    have "rmatch (lit ''json'') ([], 3, str ''json'' @ inner @ str ''```'')
        = [([], 7, inner @ str ''```'')]"
      by (simp add: rmatch_lit del: lit.simps)
    with tail [of 7] show ?thesis
      unfolding t
      by (auto simp: Opt_def simp del: lit.simps str_Cons)
  qed
  then obtain st others where
    st: "rmatch (Seq (Opt (lit ''json'')) R) ([], 3, tag @ inner @ str ''```'') = st # others"
      "fst st = [(1, inner)]"
    by blast
  have first: "rmatch (lit ''```'') ([], 0, str ''```'' @ tag @ inner @ str ''```'')
      = [([], 3, tag @ inner @ str ''```'')]"
    by (simp add: rmatch_lit del: lit.simps)
  have "rmatch re_fence ([], 0, str ''```'' @ tag @ inner @ str ''```'')
      = rmatch (Seq (Opt (lit ''json'')) R) ([], 3, tag @ inner @ str ''```'')"
    unfolding fence by (subst rmatch.simps(3)) (simp only: first list.map concat.simps append_Nil2)
  with st have "rmatch re_fence ([], 0, str ''```'' @ tag @ inner @ str ''```'') = st # others"
    by simp
  with st(2) show ?thesis
    by (cases st) (simp add: re_exec_def group_def)
qed

lemma fenced_text_reaches_parser:
  assumes "tag = [] \<and> \<not> starts_with inner (str ''json'') \<or> tag = str ''json''"
    and "\<not> str_includes (inner @ str ''``'') (str ''```'')"
  shows "jsonText (str ''```'' @ tag @ inner @ str ''```'') = Inr (trim inner)"
    and "jsonText inner = Inr (trim inner)"
proof -
  from fence_match [OF assms]
  show "jsonText (str ''```'' @ tag @ inner @ str ''```'') = Inr (trim inner)"
    by (auto simp: jsonText_def group_text_def simp del: str_Cons)
  from assms(2) have "\<not> str_includes inner (str ''```'')"
    using str_includes_append [of inner "str ''```''" "str ''``''"] by blast
  then show "jsonText inner = Inr (trim inner)"
    by (simp add: jsonText_def re_exec_def no_fence_no_match del: str_Cons)
qed

text \<open>
  C6 (as amended). For a response that is a fenced block, without a tag or with the tag
  \<open>json\<close>, around a text that holds no triple backtick (nor ends in a backtick): the fence
  pattern captures the inner text, so the fenced text and the inner text alone reach
  \<open>JSON.parse\<close> as the same string, the trimmed inner text (without a tag, provided the
  inner text does not itself begin with the letters \<open>json\<close>, which no JSON text does).
  When that string is valid JSON, the first parse succeeds and both branches give the value
  that parsing the inner text directly gives.
\<close>

theorem fenced_json_parses_as_inner:
  assumes "tag = [] \<or> tag = str ''json''"
    and "\<not> str_includes (inner @ str ''``'') (str ''```'')"
  shows "(tag = [] \<longrightarrow> \<not> starts_with inner (str ''json'') \<longrightarrow>
            jsonText (str ''```'' @ tag @ inner @ str ''```'') = Inr (trim inner))
     \<and> (tag = str ''json'' \<longrightarrow>
            jsonText (str ''```'' @ tag @ inner @ str ''```'') = Inr (trim inner))
     \<and> jsonText inner = Inr (trim inner)
     \<and> (\<forall>v. JSON_parse (trim inner) = Some v \<longrightarrow>
            jsonText (str ''```'' @ tag @ inner @ str ''```'') = Inr (trim inner)
            \<and> parse_extraction_openai (str ''```'' @ tag @ inner @ str ''```'') = Inr v
            \<and> parse_extraction_gemini (str ''```'' @ tag @ inner @ str ''```'') = Inr v
            \<and> parse_extraction_openai inner = Inr v
            \<and> parse_extraction_gemini inner = Inr v)"
proof -
  have plain: "jsonText inner = Inr (trim inner)"
  proof -
    from assms(2) have "\<not> str_includes inner (str ''```'')"
      using str_includes_append [of inner "str ''```''" "str ''``''"] by blast
    then show ?thesis
      by (simp add: jsonText_def re_exec_def no_fence_no_match del: str_Cons)
  qed
  have fenced: "jsonText (str ''```'' @ tag @ inner @ str ''```'') = Inr (trim inner)"
    if "tag = [] \<and> \<not> starts_with inner (str ''json'') \<or> tag = str ''json''"
    using fenced_text_reaches_parser(1) [OF that assms(2)] .
  have valid: "jsonText (str ''```'' @ tag @ inner @ str ''```'') = Inr (trim inner)"
    if "JSON_parse (trim inner) = Some v" for v
    using fenced assms(1) valid_json_is_no_tag [OF that] by blast
  have parsed: "parse_extraction_openai (str ''```'' @ tag @ inner @ str ''```'') = Inr v
      \<and> parse_extraction_gemini (str ''```'' @ tag @ inner @ str ''```'') = Inr v
      \<and> parse_extraction_openai inner = Inr v
      \<and> parse_extraction_gemini inner = Inr v"
    if "JSON_parse (trim inner) = Some v" for v
    using valid [OF that] plain that
    by (simp add: parse_extraction_openai_def parse_extraction_gemini_def del: str_Cons)
  from plain fenced valid parsed show ?thesis by blast
qed

theorem fenced_json_parses_as_inner_witness:
  \<open>parse_extraction_openai (str ''```json\<newline>{"problem_statement":"Sum two numbers"}\<newline>```'')
     = Inr (JObj [(str ''problem_statement'', JStr (str ''Sum two numbers''))])
   \<and> parse_extraction_openai (str ''\<newline>{"problem_statement":"Sum two numbers"}\<newline>'')
     = Inr (JObj [(str ''problem_statement'', JStr (str ''Sum two numbers''))])
   \<and> jsonText (str ''```json\<newline>{"problem_statement":"Sum two numbers"}\<newline>```'')
     = Inr (str ''{"problem_statement":"Sum two numbers"}'')\<close>
proof -
  let ?inner = \<open>str ''\<newline>{"problem_statement":"Sum two numbers"}\<newline>''\<close>
  let ?v = "JObj [(str ''problem_statement'', JStr (str ''Sum two numbers''))]"
  have h1: "str ''json'' = [] \<or> str ''json'' = str ''json''" by simp
  have h2: "\<not> str_includes (?inner @ str ''``'') (str ''```'')" by code_simp
  have h3: "JSON_parse (trim ?inner) = Some ?v"
    by code_simp
  have t: \<open>trim ?inner = str ''{"problem_statement":"Sum two numbers"}''\<close>
    by code_simp
  have a: \<open>str ''```'' @ str ''json'' @ ?inner @ str ''```''
      = str ''```json\<newline>{"problem_statement":"Sum two numbers"}\<newline>```''\<close>
    by (simp add: str_def)
  from fenced_json_parses_as_inner [OF h1 h2] h3
  have "jsonText (str ''```'' @ str ''json'' @ ?inner @ str ''```'') = Inr (trim ?inner)
      \<and> parse_extraction_openai (str ''```'' @ str ''json'' @ ?inner @ str ''```'') = Inr ?v
      \<and> parse_extraction_openai ?inner = Inr ?v"
    by blast
  then show ?thesis unfolding a t by simp
qed

theorem fence_with_other_tag_counterexample:
  \<open>jsonText (str ''```js\<newline>{"a": 1}\<newline>```'') = Inr (str ''js\<newline>{"a": 1}'')
   \<and> JSON_parse (str ''js\<newline>{"a": 1}'') = None
   \<and> JSON_parse (trim (str ''\<newline>{"a": 1}\<newline>'')) = Some (JObj [(str ''a'', JNum (Finite 1))])
   \<and> parse_extraction_openai (str ''```js\<newline>[1]\<newline>```'')
       = Inl (Error ''Could not identify JSON structure in the response'')
   \<and> parse_extraction_openai (str ''\<newline>[1]\<newline>'') = Inr (JArr [JNum (Finite 1)] [])\<close>
  by code_simp

section \<open>Properties of the multiple-choice functions\<close>




lemma field_object [simp]: "field (JObj kvs) k = lookup kvs k"
  by (simp add: field_def)

lemma property_names [simp]:
  "str ''question_text'' \<noteq> str ''__proto__''" "str ''options'' \<noteq> str ''__proto__''"
  "str ''question_text'' \<noteq> str ''options''" "str ''options'' \<noteq> str ''question_text''"
  by (simp_all add: str_def)









text \<open>
  C10. Whatever the pattern constructor does: a response without a \<open>questions\<close> array,
  whose text holds one numbered line, gives a question with an empty options map; and a
  question with neither options nor text makes the function raise.
\<close>

theorem extracted_question_without_options:
  \<open>validateAndFixMCQFormat rx (JObj [(str ''text'', JStr (str ''1) What is 2+2?''))])
       (str ''{"text": "1) What is 2+2?"}'')
     = Inr (JObj [(str ''questions'',
         JArr [JObj [(str ''question_number'', JStr (str ''1'')),
                     (str ''question_text'', JStr (str ''What is 2+2?"}'')),
                     (str ''options'', JObj [])]] [])])
   \<and> validateAndFixMCQFormat rx (JObj [(str ''questions'', JArr [JObj []] [])])
       (str ''{"questions": [{}]}'')
     = Inl TypeError\<close>
  by code_simp




end
